theory Spec2Isabelle
  imports Complex_Main "HOL-Library.Multiset"
begin

section \<open>Go's float64\<close>

text \<open>
  A \<open>float64\<close> is a finite real, an infinity or NaN. The two zeros of IEEE 754 are one
  value here (\<open>Fin 0\<close>); nothing in the functions below reads the sign of a zero except a
  division by a negative zero, which is taken as a division by the positive one.

  Every arithmetic operation computes the exact real result and rounds it; the rounding
  is the parameter \<open>r\<close> of the operations, so that the same translation of the source
  can be read with the rounding of the hardware (\<open>round64\<close>, binary64 round to nearest,
  ties to even) or with no rounding at all (\<open>exact\<close>). Each operation of the source
  rounds on its own, as on amd64: no product is fused with the sum that follows it.
  Integer literals of the source are written \<open>Fin 1\<close>, \<open>Fin 2\<close>; a decimal literal
  \<open>c\<close> is \<open>r c\<close>, the value of the format nearest to it.
\<close>

datatype float64 = Fin real | PInf | NInf | NaN

type_synonym rounding = "real \<Rightarrow> float64"

definition exact :: rounding where
  "exact x = Fin x"

definition pow2 :: "int \<Rightarrow> real" where
  "pow2 k = (if 0 \<le> k then 2 ^ nat k else 1 / 2 ^ nat (- k))"

definition rne :: "real \<Rightarrow> int" where
  \<comment> \<open>round to the nearest integer, ties to the even one\<close>
  "rne x = (let f = \<lfloor>x\<rfloor>; d = x - of_int f in
            if d < 1 / 2 then f else if 1 / 2 < d then f + 1
            else if even f then f else f + 1)"

definition ulp_exp :: "real \<Rightarrow> int" where
  \<comment> \<open>exponent of the last place of the binade of x: 53 significant bits, subnormals
      below \<open>2^-1022\<close>\<close>
  "ulp_exp x = max \<lfloor>log 2 \<bar>x\<bar>\<rfloor> (- 1022) - 52"

definition round64 :: rounding where
  "round64 x =
     (if x = 0 then Fin 0
      else let u = pow2 (ulp_exp x); y = of_int (rne (x / u)) * u in
           if 2 ^ 1024 \<le> \<bar>y\<bar> then (if 0 < x then PInf else NInf) else Fin y)"

fun fneg :: "float64 \<Rightarrow> float64" where
  "fneg (Fin x) = Fin (- x)"
| "fneg PInf = NInf"
| "fneg NInf = PInf"
| "fneg NaN = NaN"

fun fadd :: "rounding \<Rightarrow> float64 \<Rightarrow> float64 \<Rightarrow> float64" where
  "fadd r (Fin x) (Fin y) = r (x + y)"
| "fadd r NaN _ = NaN"
| "fadd r _ NaN = NaN"
| "fadd r PInf NInf = NaN"
| "fadd r NInf PInf = NaN"
| "fadd r PInf _ = PInf"
| "fadd r _ PInf = PInf"
| "fadd r NInf _ = NInf"
| "fadd r _ NInf = NInf"

definition fsub :: "rounding \<Rightarrow> float64 \<Rightarrow> float64 \<Rightarrow> float64" where
  "fsub r x y = fadd r x (fneg y)"

fun fmul :: "rounding \<Rightarrow> float64 \<Rightarrow> float64 \<Rightarrow> float64" where
  "fmul r (Fin x) (Fin y) = r (x * y)"
| "fmul r NaN _ = NaN"
| "fmul r _ NaN = NaN"
| "fmul r (Fin x) PInf = (if x = 0 then NaN else if 0 < x then PInf else NInf)"
| "fmul r (Fin x) NInf = (if x = 0 then NaN else if 0 < x then NInf else PInf)"
| "fmul r PInf (Fin y) = (if y = 0 then NaN else if 0 < y then PInf else NInf)"
| "fmul r NInf (Fin y) = (if y = 0 then NaN else if 0 < y then NInf else PInf)"
| "fmul r PInf PInf = PInf"
| "fmul r NInf NInf = PInf"
| "fmul r PInf NInf = NInf"
| "fmul r NInf PInf = NInf"

fun fdiv :: "rounding \<Rightarrow> float64 \<Rightarrow> float64 \<Rightarrow> float64" where
  "fdiv r (Fin x) (Fin y) =
     (if y = 0 then (if x = 0 then NaN else if 0 < x then PInf else NInf)
      else r (x / y))"
| "fdiv r NaN _ = NaN"
| "fdiv r _ NaN = NaN"
| "fdiv r (Fin x) PInf = Fin 0"
| "fdiv r (Fin x) NInf = Fin 0"
| "fdiv r PInf (Fin y) = (if 0 \<le> y then PInf else NInf)"
| "fdiv r NInf (Fin y) = (if 0 \<le> y then NInf else PInf)"
| "fdiv r PInf PInf = NaN"
| "fdiv r PInf NInf = NaN"
| "fdiv r NInf PInf = NaN"
| "fdiv r NInf NInf = NaN"

fun fsqrt :: "rounding \<Rightarrow> float64 \<Rightarrow> float64" where
  \<comment> \<open>math.Sqrt\<close>
  "fsqrt r (Fin x) = (if x < 0 then NaN else r (sqrt x))"
| "fsqrt r PInf = PInf"
| "fsqrt r NInf = NaN"
| "fsqrt r NaN = NaN"

fun flt :: "float64 \<Rightarrow> float64 \<Rightarrow> bool" where
  \<comment> \<open>\<open>x < y\<close>: false as soon as one side is NaN\<close>
  "flt (Fin x) (Fin y) = (x < y)"
| "flt NaN _ = False"
| "flt _ NaN = False"
| "flt PInf _ = False"
| "flt _ NInf = False"
| "flt NInf _ = True"
| "flt _ PInf = True"

fun fle :: "float64 \<Rightarrow> float64 \<Rightarrow> bool" where
  \<comment> \<open>\<open>x <= y\<close>: false as soon as one side is NaN\<close>
  "fle (Fin x) (Fin y) = (x \<le> y)"
| "fle NaN _ = False"
| "fle _ NaN = False"
| "fle NInf _ = True"
| "fle _ PInf = True"
| "fle PInf _ = False"
| "fle _ NInf = False"

definition fgt :: "float64 \<Rightarrow> float64 \<Rightarrow> bool" where
  "fgt x y = flt y x"

definition fge :: "float64 \<Rightarrow> float64 \<Rightarrow> bool" where
  "fge x y = fle y x"

definition of_len :: "rounding \<Rightarrow> nat \<Rightarrow> float64" where
  \<comment> \<open>the conversion \<open>float64(len(data))\<close>\<close>
  "of_len r n = r (real n)"

definition representable :: "rounding \<Rightarrow> float64 \<Rightarrow> bool" where
  \<comment> \<open>a value of the format: rounding leaves it as it is\<close>
  "representable r v = (case v of Fin x \<Rightarrow> r x = Fin x | _ \<Rightarrow> True)"

section \<open>The Beta model\<close>

text \<open>
  \<open>distuv.Beta\<close> of gonum is a struct of the two shape parameters (its random source
  stays nil); \<open>Beta\<close> stores the parameters and that struct.
\<close>

record distuv_Beta =
  dAlpha :: float64
  dBeta :: float64

record Beta =
  Alpha :: float64
  Beta :: float64
  bdist :: distuv_Beta

definition NewBeta :: "float64 \<Rightarrow> float64 \<Rightarrow> Beta" where
  "NewBeta alpha beta =
     \<lparr>Alpha = alpha, Beta = beta, bdist = \<lparr>dAlpha = alpha, dBeta = beta\<rparr>\<rparr>"

text \<open>\<open>BetaPosterior\<close> is a struct whose only member is the embedded \<open>*Beta\<close>.\<close>

datatype BetaPosterior = BetaPosterior (theBeta: Beta)

definition Beta_Mode :: "rounding \<Rightarrow> Beta \<Rightarrow> float64 list" where
  "Beta_Mode r b =
     (if fgt (Alpha b) (Fin 1) \<and> fgt (Beta b) (Fin 1) then
        [fdiv r (fsub r (Alpha b) (Fin 1)) (fsub r (fadd r (Alpha b) (Beta b)) (Fin 2))]
      else if flt (Alpha b) (Fin 1) \<and> flt (Beta b) (Fin 1) then [Fin 0, Fin 1]
      else if flt (Alpha b) (Fin 1) \<and> fge (Beta b) (Fin 1) then [Fin 0]
      else [Fin 1])"

text \<open>The loop of \<open>Beta.Update\<close>: \<open>successes\<close> is a float64 that each datum above 0 increments.\<close>

fun count_successes :: "rounding \<Rightarrow> float64 \<Rightarrow> float64 list \<Rightarrow> float64" where
  "count_successes r successes [] = successes"
| "count_successes r successes (x # data) =
     count_successes r (if fgt x (Fin 0) then fadd r successes (Fin 1) else successes) data"

definition Beta_Update :: "rounding \<Rightarrow> Beta \<Rightarrow> float64 list \<Rightarrow> BetaPosterior" where
  "Beta_Update r b data =
     (let trials = of_len r (length data);
          successes = count_successes r (Fin 0) data
      in BetaPosterior
           (NewBeta (fadd r (Alpha b) successes) (fsub r (fadd r (Beta b) trials) successes)))"

definition Beta_UpdateSingle :: "rounding \<Rightarrow> Beta \<Rightarrow> float64 \<Rightarrow> BetaPosterior" where
  "Beta_UpdateSingle r b observation =
     (if fgt observation (Fin 0) then BetaPosterior (NewBeta (fadd r (Alpha b) (Fin 1)) (Beta b))
      else BetaPosterior (NewBeta (Alpha b) (fadd r (Beta b) (Fin 1))))"

section \<open>Panics\<close>

text \<open>
  The functions of gonum that the repository calls panic on some inputs; a panic is a
  value here, and a function that can panic returns \<open>panic + 'a\<close>.
\<close>

datatype panic =
    PercentileOutOfBounds  \<comment> \<open>stat.Quantile: p outside [0, 1]\<close>
  | ZeroLengthSlice        \<comment> \<open>stat.Quantile: empty x\<close>
  | NotSorted              \<comment> \<open>stat.Quantile: x is not sorted\<close>
  | Impossible             \<comment> \<open>stat.Quantile: the loop ended without a result\<close>
  | BadPercentile          \<comment> \<open>distuv Quantile: p outside [0, 1]\<close>

definition pbind :: "panic + 'a \<Rightarrow> ('a \<Rightarrow> panic + 'b) \<Rightarrow> panic + 'b" where
  "pbind m f = (case m of Inl e \<Rightarrow> Inl e | Inr v \<Rightarrow> f v)"

section \<open>The functions of gonum/stat and gonum/floats that ComputeSummary calls\<close>

text \<open>
  These functions belong to the library \<open>gonum.org/v1/gonum\<close>, which the repository
  imports; they are written here as the library computes them when \<open>weights\<close> is nil, the
  only way the repository calls them: \<open>stat.Mean\<close> is the sum over the length,
  \<open>stat.Variance\<close> the unbiased two-pass estimate (sum of squares over \<open>n - 1\<close>),
  \<open>stat.StdDev\<close> its square root, and \<open>stat.Quantile\<close> with the kind \<open>stat.Empirical\<close>
  the first element of the sorted slice at which the count of elements reaches \<open>p * n\<close>.
  \<open>floats.Sum\<close> adds from left to right, as its portable implementation does; its
  assembly implementation for amd64 adds in several lanes, so that the last places of a
  mean, and on cancelling data the mean itself, can differ there. The results below are
  about the quantiles and the input slice, and where they evaluate a mean it is that of
  a single sample or of small integers, for which every order of the additions gives the
  same sum.
\<close>

definition floats_Sum :: "rounding \<Rightarrow> float64 list \<Rightarrow> float64" where
  "floats_Sum r s = foldl (fadd r) (Fin 0) s"

definition stat_Mean :: "rounding \<Rightarrow> float64 list \<Rightarrow> float64" where
  "stat_Mean r x = fdiv r (floats_Sum r x) (of_len r (length x))"

fun variance_loop ::
  "rounding \<Rightarrow> float64 \<Rightarrow> float64 \<times> float64 \<Rightarrow> float64 list \<Rightarrow> float64 \<times> float64" where
  "variance_loop r mean (ss, compensation) [] = (ss, compensation)"
| "variance_loop r mean (ss, compensation) (v # x) =
     (let d = fsub r v mean
      in variance_loop r mean (fadd r ss (fmul r d d), fadd r compensation d) x)"

definition meanUnnormalisedVariance ::
  "rounding \<Rightarrow> float64 list \<Rightarrow> float64 \<times> float64 \<times> float64" where
  "meanUnnormalisedVariance r x =
     (let mean = stat_Mean r x;
          (ss, compensation) = variance_loop r mean (Fin 0, Fin 0) x;
          unnormalisedVariance =
            fsub r ss (fdiv r (fmul r compensation compensation) (of_len r (length x)))
      in (mean, unnormalisedVariance, of_len r (length x)))"

definition stat_MeanVariance :: "rounding \<Rightarrow> float64 list \<Rightarrow> float64 \<times> float64" where
  "stat_MeanVariance r x =
     (let (mean, unnormalisedVariance, sumWeights) = meanUnnormalisedVariance r x
      in (mean, fdiv r unnormalisedVariance (fsub r sumWeights (Fin 1))))"

definition stat_Variance :: "rounding \<Rightarrow> float64 list \<Rightarrow> float64" where
  "stat_Variance r x = snd (stat_MeanVariance r x)"

definition stat_StdDev :: "rounding \<Rightarrow> float64 list \<Rightarrow> float64" where
  "stat_StdDev r x = fsqrt r (stat_Variance r x)"

definition floats_HasNaN :: "float64 list \<Rightarrow> bool" where
  "floats_HasNaN s = (NaN \<in> set s)"

definition cmp_Less :: "float64 \<Rightarrow> float64 \<Rightarrow> bool" where
  \<comment> \<open>the order of \<open>slices.Sort\<close> and of \<open>sort.Float64Slice\<close>: NaN before every other value\<close>
  "cmp_Less x y = (if x = NaN then y \<noteq> NaN else flt x y)"

fun Float64sAreSorted :: "float64 list \<Rightarrow> bool" where
  "Float64sAreSorted (x # y # zs) = (if cmp_Less y x then False else Float64sAreSorted (y # zs))"
| "Float64sAreSorted _ = True"

text \<open>
  \<open>empiricalQuantile\<close>: \<open>cumsum\<close> counts the elements passed, and the first element at
  which the count reaches \<open>fidx = p * sumWeights\<close> is the result.
\<close>

fun empiricalQuantile_loop ::
  "rounding \<Rightarrow> float64 \<Rightarrow> float64 \<Rightarrow> float64 list \<Rightarrow> panic + float64" where
  "empiricalQuantile_loop r fidx cumsum [] = Inl Impossible"
| "empiricalQuantile_loop r fidx cumsum (xi # x) =
     (let cumsum' = fadd r cumsum (Fin 1)
      in if fge cumsum' fidx then Inr xi else empiricalQuantile_loop r fidx cumsum' x)"

definition empiricalQuantile ::
  "rounding \<Rightarrow> float64 \<Rightarrow> float64 list \<Rightarrow> float64 \<Rightarrow> panic + float64" where
  "empiricalQuantile r p x sumWeights =
     empiricalQuantile_loop r (fmul r p sumWeights) (Fin 0) x"

definition stat_Quantile :: "rounding \<Rightarrow> float64 \<Rightarrow> float64 list \<Rightarrow> panic + float64" where
  \<comment> \<open>\<open>stat.Quantile(p, stat.Empirical, x, nil)\<close>\<close>
  "stat_Quantile r p x =
     (if \<not> (fge p (Fin 0) \<and> fle p (Fin 1)) then Inl PercentileOutOfBounds
      else if length x = 0 then Inl ZeroLengthSlice
      else if floats_HasNaN x then Inr NaN
      else if \<not> Float64sAreSorted x then Inl NotSorted
      else empiricalQuantile r p x (of_len r (length x)))"

section \<open>Slices\<close>

text \<open>
  A heap is the list of the backing arrays allocated so far, and a slice is the index of
  its array: the slices of \<open>ComputeSummary\<close> all span their whole array. \<open>slices.Sort\<close>
  leaves the array in ascending order of \<open>cmp_Less\<close>; two values that this order does not
  separate are the same value, so the sorted array does not depend on the algorithm, and
  an insertion sort stands for it.
\<close>

type_synonym heap = "float64 list list"

type_synonym slice = nat

definition go_make :: "heap \<Rightarrow> nat \<Rightarrow> slice \<times> heap" where
  "go_make h n = (length h, h @ [replicate n (Fin 0)])"

definition go_copy :: "heap \<Rightarrow> slice \<Rightarrow> slice \<Rightarrow> heap" where
  "go_copy h dst src =
     (let k = min (length (h ! dst)) (length (h ! src))
      in h[dst := take k (h ! src) @ drop k (h ! dst)])"

fun insert_sorted :: "float64 \<Rightarrow> float64 list \<Rightarrow> float64 list" where
  "insert_sorted x [] = [x]"
| "insert_sorted x (y # ys) = (if cmp_Less y x then y # insert_sorted x ys else x # y # ys)"

fun sorted_list :: "float64 list \<Rightarrow> float64 list" where
  "sorted_list [] = []"
| "sorted_list (x # xs) = insert_sorted x (sorted_list xs)"

definition slices_Sort :: "heap \<Rightarrow> slice \<Rightarrow> heap" where
  "slices_Sort h s = h[s := sorted_list (h ! s)]"

section \<open>Summary\<close>

record Summary =
  Mean :: float64
  Median :: float64
  Mode :: float64
  Variance :: float64
  StdDev :: float64
  CI95 :: "float64 \<times> float64"
  CI99 :: "float64 \<times> float64"
  Samples :: slice

definition estimateMode :: "rounding \<Rightarrow> float64 list \<Rightarrow> float64" where
  "estimateMode r samples = stat_Mean r samples"

text \<open>
  The fields of the composite literal are evaluated in the order written. The constants
  0.5, 0.025, ... are the float64 values nearest to them.
\<close>

definition ComputeSummary :: "rounding \<Rightarrow> heap \<Rightarrow> slice \<Rightarrow> (panic + Summary) \<times> heap" where
  "ComputeSummary r h samples =
     (let (sort, h1) = go_make h (length (h ! samples));
          h2 = go_copy h1 sort samples;
          h3 = slices_Sort h2 sort;
          mean = stat_Mean r (h3 ! samples)
      in (pbind (stat_Quantile r (r (5 / 10)) (h3 ! sort)) (\<lambda>median.
          let mode = estimateMode r (h3 ! samples);
              variance = stat_Variance r (h3 ! samples);
              stdDev = stat_StdDev r (h3 ! samples)
          in pbind (stat_Quantile r (r (25 / 1000)) (h3 ! sort)) (\<lambda>lo95.
             pbind (stat_Quantile r (r (975 / 1000)) (h3 ! sort)) (\<lambda>hi95.
             pbind (stat_Quantile r (r (5 / 1000)) (h3 ! sort)) (\<lambda>lo99.
             pbind (stat_Quantile r (r (995 / 1000)) (h3 ! sort)) (\<lambda>hi99.
               Inr \<lparr>Mean = mean, Median = median, Mode = mode, Variance = variance,
                    StdDev = stdDev, CI95 = (lo95, hi95), CI99 = (lo99, hi99),
                    Samples = samples\<rparr>))))),
          h3))"

text \<open>The sample sequence \<open>[1, 2, ..., 100]\<close>.\<close>

definition one_to_hundred :: "float64 list" where
  "one_to_hundred = map (\<lambda>n. Fin (real n)) [1..<101]"

section \<open>The Normal model\<close>

record distuv_Normal =
  dMu :: float64
  dSigma :: float64

record Normal =
  Mu :: float64
  Sigma :: float64
  ndist :: distuv_Normal

definition NewNormal :: "float64 \<Rightarrow> float64 \<Rightarrow> Normal" where
  "NewNormal mu sigma = \<lparr>Mu = mu, Sigma = sigma, ndist = \<lparr>dMu = mu, dSigma = sigma\<rparr>\<rparr>"

record NormalConjugate =
  Normal :: Normal
  KnownVariance :: float64

definition NewNormalConjugate :: "float64 \<Rightarrow> float64 \<Rightarrow> float64 \<Rightarrow> NormalConjugate" where
  "NewNormalConjugate mu sigma knownVariance =
     \<lparr>Normal = NewNormal mu sigma, KnownVariance = knownVariance\<rparr>"

datatype NormalPosterior = NormalPosterior (theNormal: Normal)

definition NormalConjugate_Update ::
  "rounding \<Rightarrow> NormalConjugate \<Rightarrow> float64 list \<Rightarrow> NormalPosterior" where
  "NormalConjugate_Update r nc data =
     (let n = of_len r (length data);
          sumX = foldl (fadd r) (Fin 0) data;
          xBar = fdiv r sumX n;
          tau0 = fdiv r (Fin 1) (fmul r (Sigma (Normal nc)) (Sigma (Normal nc)));
          tau = fdiv r (Fin 1) (KnownVariance nc);
          tauNew = fadd r tau0 (fmul r n tau);
          muNew = fdiv r (fadd r (fmul r tau0 (Mu (Normal nc))) (fmul r (fmul r n tau) xBar))
                    tauNew;
          sigmaNew = fsqrt r (fdiv r (Fin 1) tauNew)
      in NormalPosterior (NewNormal muNew sigmaNew))"

definition NormalConjugate_UpdateSingle ::
  "rounding \<Rightarrow> NormalConjugate \<Rightarrow> float64 \<Rightarrow> NormalPosterior" where
  "NormalConjugate_UpdateSingle r nc observation = NormalConjugate_Update r nc [observation]"

section \<open>Quantiles and intervals of the posteriors\<close>

text \<open>
  \<open>Quantile\<close> of \<open>distuv.Beta\<close> and of \<open>distuv.Normal\<close> panics outside [0, 1] and
  otherwise evaluates a special function of gonum's \<open>mathext\<close>, a parameter here:
  \<open>inv_reg_inc_beta\<close> for \<open>mathext.InvRegIncBeta\<close>, \<open>normal_quantile\<close> for
  \<open>mathext.NormalQuantile\<close>.
\<close>

definition distuv_Beta_Quantile ::
  "(float64 \<Rightarrow> float64 \<Rightarrow> float64 \<Rightarrow> float64) \<Rightarrow> distuv_Beta \<Rightarrow> float64 \<Rightarrow> panic + float64" where
  "distuv_Beta_Quantile inv_reg_inc_beta d p =
     (if flt p (Fin 0) \<or> fgt p (Fin 1) then Inl BadPercentile
      else Inr (inv_reg_inc_beta (dAlpha d) (dBeta d) p))"

definition distuv_Normal_Quantile ::
  "rounding \<Rightarrow> (float64 \<Rightarrow> float64) \<Rightarrow> distuv_Normal \<Rightarrow> float64 \<Rightarrow> panic + float64" where
  "distuv_Normal_Quantile r normal_quantile d p =
     (if flt p (Fin 0) \<or> fgt p (Fin 1) then Inl BadPercentile
      else Inr (fadd r (dMu d) (fmul r (dSigma d) (normal_quantile p))))"

definition Beta_Quantile ::
  "(float64 \<Rightarrow> float64 \<Rightarrow> float64 \<Rightarrow> float64) \<Rightarrow> Beta \<Rightarrow> float64 \<Rightarrow> panic + float64" where
  "Beta_Quantile inv_reg_inc_beta b p = distuv_Beta_Quantile inv_reg_inc_beta (bdist b) p"

definition Normal_Quantile ::
  "rounding \<Rightarrow> (float64 \<Rightarrow> float64) \<Rightarrow> Normal \<Rightarrow> float64 \<Rightarrow> panic + float64" where
  "Normal_Quantile r normal_quantile n p = distuv_Normal_Quantile r normal_quantile (ndist n) p"

definition BetaPosterior_CredibleInterval ::
  "rounding \<Rightarrow> (float64 \<Rightarrow> float64 \<Rightarrow> float64 \<Rightarrow> float64) \<Rightarrow> BetaPosterior \<Rightarrow> float64
     \<Rightarrow> panic + float64 \<times> float64" where
  "BetaPosterior_CredibleInterval r inv_reg_inc_beta bp confidence =
     (let alpha = fdiv r (fsub r (Fin 1) confidence) (Fin 2)
      in pbind (Beta_Quantile inv_reg_inc_beta (theBeta bp) alpha) (\<lambda>lower.
         pbind (Beta_Quantile inv_reg_inc_beta (theBeta bp) (fsub r (Fin 1) alpha)) (\<lambda>upper.
           Inr (lower, upper))))"

definition BetaPosterior_HPD ::
  "rounding \<Rightarrow> (float64 \<Rightarrow> float64 \<Rightarrow> float64 \<Rightarrow> float64) \<Rightarrow> BetaPosterior \<Rightarrow> float64
     \<Rightarrow> panic + float64 \<times> float64" where
  "BetaPosterior_HPD r inv_reg_inc_beta bp confidence =
     BetaPosterior_CredibleInterval r inv_reg_inc_beta bp confidence"

definition NormalPosterior_CredibleInterval ::
  "rounding \<Rightarrow> (float64 \<Rightarrow> float64) \<Rightarrow> NormalPosterior \<Rightarrow> float64
     \<Rightarrow> panic + float64 \<times> float64" where
  "NormalPosterior_CredibleInterval r normal_quantile np confidence =
     (let alpha = fdiv r (fsub r (Fin 1) confidence) (Fin 2)
      in pbind (Normal_Quantile r normal_quantile (theNormal np) alpha) (\<lambda>lower.
         pbind (Normal_Quantile r normal_quantile (theNormal np) (fsub r (Fin 1) alpha)) (\<lambda>upper.
           Inr (lower, upper))))"

definition NormalPosterior_HPD ::
  "rounding \<Rightarrow> (float64 \<Rightarrow> float64) \<Rightarrow> NormalPosterior \<Rightarrow> float64
     \<Rightarrow> panic + float64 \<times> float64" where
  "NormalPosterior_HPD r normal_quantile np confidence =
     NormalPosterior_CredibleInterval r normal_quantile np confidence"

section \<open>The formulas of the conjugate update\<close>




text \<open>
  The distance between a float64 result and a real number is measured as a relative error:
  \<open>close_to k a b\<close> says that \<open>a\<close> and \<open>b\<close> are positive and each is at most the other
  times \<open>(1 + 2^-52)^k\<close>, the error that \<open>k\<close> roundings to binary64 can build up.
  \<open>mag a x\<close> bounds the magnitude of a positive \<open>x\<close> by \<open>2^-a \<le> x \<le> 2^a\<close>.
\<close>

definition machine_eps :: real where
  "machine_eps = 1 / 2 ^ 52"


definition close_to :: "nat \<Rightarrow> real \<Rightarrow> real \<Rightarrow> bool" where
  "close_to k a b =
     (0 < a \<and> 0 < b \<and> a \<le> b * (1 + machine_eps) ^ k \<and> b \<le> a * (1 + machine_eps) ^ k)"

section \<open>Rounding to binary64\<close>

text \<open>
  Integers up to \<open>2^53\<close> in absolute value are float64 values, and \<open>round64\<close> of a
  number whose binade is known is computed by one division and one rounding to an integer.
\<close>

lemma pow2_powr: "pow2 k = 2 powr (of_int k)"
  by (simp add: pow2_def powr_real_of_int divide_inverse)

lemma pow2_pos [simp]: "0 < pow2 k"
  by (simp add: pow2_powr)

lemma ulp_exp_normal:
  assumes "pow2 e \<le> \<bar>x\<bar>" "\<bar>x\<bar> < pow2 (e + 1)" "- 1022 \<le> e"
  shows "ulp_exp x = e - 52"
proof -
  have pos: "0 < \<bar>x\<bar>" using assms(1) pow2_pos [of e] by linarith
  have "\<lfloor>log 2 \<bar>x\<bar>\<rfloor> = e"
    using assms(1,2) pos by (simp add: floor_log_eq_powr_iff pow2_powr)
  then show ?thesis using assms(3) by (simp add: ulp_exp_def)
qed

lemma rne_of_int [simp]: "rne (of_int m) = m"
  by (simp add: rne_def)

lemma round64_eval:
  assumes "pow2 e \<le> \<bar>x\<bar>" "\<bar>x\<bar> < pow2 (e + 1)" "- 1022 \<le> e"
    and "rne (x / pow2 (e - 52)) = m"
    and "\<bar>of_int m * pow2 (e - 52)\<bar> < 2 ^ 1024"
  shows "round64 x = Fin (of_int m * pow2 (e - 52))"
proof -
  have "0 < \<bar>x\<bar>" using assms(1) pow2_pos [of e] by linarith
  then have x0: "x \<noteq> 0" by simp
  have u: "ulp_exp x = e - 52" using assms(1,2,3) by (rule ulp_exp_normal)
  show ?thesis using x0 assms(4,5) by (simp add: round64_def u Let_def)
qed

lemma two_53_less_two_1024: "(2::real) ^ 53 < 2 ^ 1024"
  by (rule power_strict_increasing) simp_all

lemma round64_of_int_below:
  assumes "m \<noteq> 0" "\<not> 2 ^ 1024 \<le> \<bar>real_of_int m\<bar>" "e \<le> 52" "ulp_exp (of_int m) = e - 52"
  shows "round64 (of_int m) = Fin (of_int m)"
proof -
    define k where "k = nat (52 - e)"
    have u: "pow2 (e - 52) = 1 / 2 ^ k" using assms(3)
      by (cases "e = 52") (simp_all add: pow2_def k_def)
    have "real_of_int m / pow2 (e - 52) = of_int (m * 2 ^ k)" by (simp add: u)
    then have r: "rne (real_of_int m / pow2 (e - 52)) = m * 2 ^ k" by (metis rne_of_int)
    have y: "real_of_int (m * 2 ^ k) * pow2 (e - 52) = real_of_int m" by (simp add: u)
    show ?thesis unfolding round64_def Let_def assms(4) r y using assms(1,2) by simp
qed

lemma round64_of_int_top:
  assumes "m \<noteq> 0" "\<not> 2 ^ 1024 \<le> \<bar>real_of_int m\<bar>" "ulp_exp (of_int m) = 1"
    "\<bar>real_of_int m\<bar> \<le> 2 ^ 53" "2 ^ 53 \<le> \<bar>real_of_int m\<bar>"
  shows "round64 (of_int m) = Fin (of_int m)"
proof -
  have "real_of_int \<bar>m\<bar> = real_of_int (2 ^ 53)" using assms(4,5) by simp
  then have "\<bar>m\<bar> = 2 ^ 53" by (simp only: of_int_eq_iff)
  then have "even m" by (metis even_abs_add_iff even_add even_numeral even_power zero_less_numeral)
  then obtain j where j: "m = 2 * j" by (elim evenE)
  have u: "pow2 1 = 2" by (simp add: pow2_def)
  have "real_of_int m / pow2 1 = of_int j" by (simp add: u j)
  then have r: "rne (real_of_int m / pow2 1) = j" by (metis rne_of_int)
  have y: "real_of_int j * pow2 1 = real_of_int m" by (simp add: u j)
  show ?thesis unfolding round64_def Let_def assms(3) r y using assms(1,2) by simp
qed

lemma round64_of_int:
  assumes "\<bar>m\<bar> \<le> 2 ^ 53"
  shows "round64 (of_int m) = Fin (of_int m)"
proof (cases "m = 0")
  case True
  then show ?thesis by (simp add: round64_def)
next
  case False
  define e where "e = \<lfloor>log 2 \<bar>real_of_int m\<bar>\<rfloor>"
  have "1 \<le> \<bar>m\<bar>" using False by arith
  then have "real_of_int 1 \<le> real_of_int \<bar>m\<bar>" by (simp only: of_int_le_iff)
  then have m1: "1 \<le> \<bar>real_of_int m\<bar>" by simp
  have e0: "0 \<le> e" unfolding e_def using m1 by simp
  have "real_of_int \<bar>m\<bar> \<le> real_of_int (2 ^ 53)" using assms by (simp only: of_int_le_iff)
  then have m53: "\<bar>real_of_int m\<bar> \<le> 2 ^ 53" by simp
  have "log 2 \<bar>real_of_int m\<bar> \<le> 53" using m1 m53 by (simp add: log_le_iff)
  then have e53: "e \<le> 53" unfolding e_def by (simp add: floor_le_iff)
  have ue: "ulp_exp (of_int m) = e - 52" using e0 by (simp add: ulp_exp_def e_def)
  have small: "\<bar>real_of_int m\<bar> < 2 ^ 1024"
    using m53 two_53_less_two_1024 by linarith
  have nov: "\<not> 2 ^ 1024 \<le> \<bar>real_of_int m\<bar>" using small by simp
  show ?thesis
  proof (cases "e = 53")
    case True
    then have "53 \<le> log 2 \<bar>real_of_int m\<bar>" unfolding e_def by linarith
    then have "2 ^ 53 \<le> \<bar>real_of_int m\<bar>" using m1 by (simp add: le_log_iff)
    moreover have "ulp_exp (of_int m) = 1" using ue True by simp
    ultimately show ?thesis using False nov m53 by (intro round64_of_int_top)
  next
    case F: False
    then have le: "e \<le> 52" using e53 by simp
    show ?thesis using False nov le ue by (rule round64_of_int_below)
  qed
qed

lemma round64_of_nat:
  assumes "n \<le> 2 ^ 53"
  shows "round64 (real n) = Fin (real n)"
proof -
  have "int n \<le> int (2 ^ 53)" using assms by (simp only: of_nat_le_iff)
  then have "\<bar>int n\<bar> \<le> 2 ^ 53" by (simp only: of_nat_power of_nat_numeral abs_of_nat)
  then have "round64 (real_of_int (int n)) = Fin (real_of_int (int n))" by (rule round64_of_int)
  then show ?thesis by (simp only: of_int_of_nat_eq)
qed

lemma round64_numeral:
  assumes "(numeral n :: int) \<le> 2 ^ 53"
  shows "round64 (numeral n) = Fin (numeral n)"
proof -
  have "\<bar>numeral n :: int\<bar> \<le> 2 ^ 53" using assms by (simp only: abs_numeral)
  then have "round64 (real_of_int (numeral n)) = Fin (real_of_int (numeral n))" by (rule round64_of_int)
  then show ?thesis by (simp only: of_int_numeral)
qed

lemma round64_0 [simp]: "round64 0 = Fin 0"
  by (simp add: round64_def)

lemma round64_1 [simp]: "round64 1 = Fin 1"
  using round64_of_int [of 1] by simp

lemma round64_neg_numeral:
  assumes "(numeral n :: int) \<le> 2 ^ 53"
  shows "round64 (- numeral n) = Fin (- numeral n)"
proof -
  have "\<bar>- numeral n :: int\<bar> \<le> 2 ^ 53" using assms by (simp only: abs_neg_numeral)
  then have "round64 (real_of_int (- numeral n)) = Fin (real_of_int (- numeral n))"
    by (rule round64_of_int)
  then show ?thesis by (simp only: of_int_minus of_int_numeral)
qed

lemma round64_minus_1 [simp]: "round64 (- 1) = Fin (- 1)"
  using round64_of_int [of "- 1"] by simp

lemma rne_nonneg: "0 \<le> z \<Longrightarrow> 0 \<le> rne z"
  by (simp add: rne_def Let_def)

lemma rne_le: 
  assumes "z \<le> of_int N"
  shows "rne z \<le> N"
proof -
  have f: "\<lfloor>z\<rfloor> \<le> N" using assms by (simp add: floor_le_iff)
  show ?thesis
  proof (cases "\<lfloor>z\<rfloor> = N")
    case True
    then have "of_int N \<le> z" by (metis of_int_floor_le)
    with assms have "z = of_int N" by simp
    then show ?thesis by simp
  next
    case False
    with f have "\<lfloor>z\<rfloor> + 1 \<le> N" by simp
    then show ?thesis by (simp add: rne_def Let_def)
  qed
qed

lemma round64_bounded:
  assumes "0 \<le> x" and "x \<le> real n" and "n \<le> 2 ^ 53"
  shows "\<exists>y. round64 x = Fin y \<and> 0 \<le> y \<and> y \<le> real n"
proof (cases "x = 0")
  case True
  then show ?thesis by simp
next
  case False
  then have xpos: "0 < x" using assms(1) by simp
  define k where "k = ulp_exp x"
  define u where "u = pow2 k"
  have upos: "0 < u" by (simp add: u_def)
  have "real n \<le> real (2 ^ 53)" using assms(3) by (simp only: of_nat_le_iff)
  then have n53: "real n \<le> 2 ^ 53" by simp
  have x53: "x \<le> 2 ^ 53" using assms(2) n53 by linarith
  have "log 2 x \<le> 53" using xpos x53 by (simp add: log_le_iff)
  then have e53: "\<lfloor>log 2 \<bar>x\<bar>\<rfloor> \<le> 53" using xpos by (simp add: floor_le_iff)
  then have k1: "k \<le> 1" by (simp add: k_def ulp_exp_def)
  have "\<exists>N::int. real n = of_int N * u"
  proof (cases "k \<le> 0")
    case True
    then have "u = 1 / 2 ^ nat (- k)" by (cases "k = 0") (simp_all add: u_def pow2_def)
    then have "real n = of_int (int n * 2 ^ nat (- k)) * u" by simp
    then show ?thesis by blast
  next
    case F: False
    then have k: "k = 1" using k1 by simp
    then have "\<lfloor>log 2 \<bar>x\<bar>\<rfloor> = 53" using e53 by (simp add: k_def ulp_exp_def)
    then have "\<lfloor>log 2 x\<rfloor> = 53" using xpos by simp
    then have "53 \<le> log 2 x" by (simp add: floor_eq_iff)
    then have "2 ^ 53 \<le> x" using xpos by (simp add: le_log_iff)
    then have "real n = 2 ^ 53" using assms(2) n53 by linarith
    moreover have "u = 2" using k by (simp add: u_def pow2_def)
    ultimately have "real n = of_int (2 ^ 52) * u" by simp
    then show ?thesis by blast
  qed
  then obtain N :: int where N: "real n = of_int N * u" by blast
  define m where "m = rne (x / u)"
  have "x / u \<le> of_int N" using assms(2) N upos by (simp add: field_simps)
  then have mN: "m \<le> N" unfolding m_def by (rule rne_le)
  have m0: "0 \<le> m" unfolding m_def using xpos upos by (intro rne_nonneg) simp
  have y0: "0 \<le> of_int m * u" using m0 upos by simp
  have "of_int m * u \<le> of_int N * u" using mN upos by simp
  then have yn: "of_int m * u \<le> real n" using N by simp
  have "of_int m * u < 2 ^ 1024" using yn n53 two_53_less_two_1024 by linarith
  then have "\<not> 2 ^ 1024 \<le> \<bar>of_int m * u\<bar>" using y0 by simp
  then have "round64 x = Fin (of_int m * u)"
    using False unfolding round64_def Let_def k_def [symmetric] u_def [symmetric] m_def [symmetric]
    by simp
  with y0 yn show ?thesis by blast
qed

subsection \<open>The float64 values of some decimal constants\<close>

lemma round64_p50: "round64 (1 / 2) = Fin (1 / 2)"
proof -
  have "round64 (1 / 2) = Fin (of_int 4503599627370496 * pow2 (- 1 - 52))"
    by (rule round64_eval) (simp_all add: pow2_def rne_def)
  then show ?thesis by (simp add: pow2_def)
qed

lemma round64_p50_times_3: "round64 (3 / 2) = Fin (3 / 2)"
proof -
  have "round64 (3 / 2) = Fin (of_int 6755399441055744 * pow2 (0 - 52))"
    by (rule round64_eval) (simp_all add: pow2_def rne_def)
  then show ?thesis by (simp add: pow2_def)
qed

lemma round64_p025: "round64 (1 / 40) = Fin (3602879701896397 / 144115188075855872)"
proof -
  have "round64 (1 / 40) = Fin (of_int 7205759403792794 * pow2 (- 6 - 52))"
    by (rule round64_eval) (simp_all add: pow2_def rne_def)
  then show ?thesis by (simp add: pow2_def)
qed

lemma round64_p025_times_1: "round64 (3602879701896397 / 144115188075855872) = Fin (3602879701896397 / 144115188075855872)"
proof -
  have "round64 (3602879701896397 / 144115188075855872) = Fin (of_int 7205759403792794 * pow2 (- 6 - 52))"
    by (rule round64_eval) (simp_all add: pow2_def rne_def)
  then show ?thesis by (simp add: pow2_def)
qed

lemma round64_p025_times_3: "round64 (10808639105689191 / 144115188075855872) = Fin (1351079888211149 / 18014398509481984)"
proof -
  have "round64 (10808639105689191 / 144115188075855872) = Fin (of_int 5404319552844596 * pow2 (- 4 - 52))"
    by (rule round64_eval) (simp_all add: pow2_def rne_def)
  then show ?thesis by (simp add: pow2_def)
qed

lemma round64_p025_times_100: "round64 (90071992547409925 / 36028797018963968) = Fin (5 / 2)"
proof -
  have "round64 (90071992547409925 / 36028797018963968) = Fin (of_int 5629499534213120 * pow2 (1 - 52))"
    by (rule round64_eval) (simp_all add: pow2_def rne_def)
  then show ?thesis by (simp add: pow2_def)
qed

lemma round64_p975: "round64 (39 / 40) = Fin (8782019273372467 / 9007199254740992)"
proof -
  have "round64 (39 / 40) = Fin (of_int 8782019273372467 * pow2 (- 1 - 52))"
    by (rule round64_eval) (simp_all add: pow2_def rne_def)
  then show ?thesis by (simp add: pow2_def)
qed

lemma round64_p975_times_1: "round64 (8782019273372467 / 9007199254740992) = Fin (8782019273372467 / 9007199254740992)"
proof -
  have "round64 (8782019273372467 / 9007199254740992) = Fin (of_int 8782019273372467 * pow2 (- 1 - 52))"
    by (rule round64_eval) (simp_all add: pow2_def rne_def)
  then show ?thesis by (simp add: pow2_def)
qed

lemma round64_p975_times_3: "round64 (26346057820117401 / 9007199254740992) = Fin (3293257227514675 / 1125899906842624)"
proof -
  have "round64 (26346057820117401 / 9007199254740992) = Fin (of_int 6586514455029350 * pow2 (1 - 52))"
    by (rule round64_eval) (simp_all add: pow2_def rne_def)
  then show ?thesis by (simp add: pow2_def)
qed

lemma round64_p975_times_100: "round64 (219550481834311675 / 2251799813685248) = Fin (195 / 2)"
proof -
  have "round64 (219550481834311675 / 2251799813685248) = Fin (of_int 6860952557322240 * pow2 (6 - 52))"
    by (rule round64_eval) (simp_all add: pow2_def rne_def)
  then show ?thesis by (simp add: pow2_def)
qed

lemma round64_p005: "round64 (1 / 200) = Fin (5764607523034235 / 1152921504606846976)"
proof -
  have "round64 (1 / 200) = Fin (of_int 5764607523034235 * pow2 (- 8 - 52))"
    by (rule round64_eval) (simp_all add: pow2_def rne_def)
  then show ?thesis by (simp add: pow2_def)
qed

lemma round64_p005_times_1: "round64 (5764607523034235 / 1152921504606846976) = Fin (5764607523034235 / 1152921504606846976)"
proof -
  have "round64 (5764607523034235 / 1152921504606846976) = Fin (of_int 5764607523034235 * pow2 (- 8 - 52))"
    by (rule round64_eval) (simp_all add: pow2_def rne_def)
  then show ?thesis by (simp add: pow2_def)
qed

lemma round64_p005_times_3: "round64 (17293822569102705 / 1152921504606846976) = Fin (1080863910568919 / 72057594037927936)"
proof -
  have "round64 (17293822569102705 / 1152921504606846976) = Fin (of_int 8646911284551352 * pow2 (- 7 - 52))"
    by (rule round64_eval) (simp_all add: pow2_def rne_def)
  then show ?thesis by (simp add: pow2_def)
qed

lemma round64_p005_times_100: "round64 (144115188075855875 / 288230376151711744) = Fin (1 / 2)"
proof -
  have "round64 (144115188075855875 / 288230376151711744) = Fin (of_int 4503599627370496 * pow2 (- 1 - 52))"
    by (rule round64_eval) (simp_all add: pow2_def rne_def)
  then show ?thesis by (simp add: pow2_def)
qed

lemma round64_p995: "round64 (199 / 200) = Fin (8962163258467287 / 9007199254740992)"
proof -
  have "round64 (199 / 200) = Fin (of_int 8962163258467287 * pow2 (- 1 - 52))"
    by (rule round64_eval) (simp_all add: pow2_def rne_def)
  then show ?thesis by (simp add: pow2_def)
qed

lemma round64_p995_times_1: "round64 (8962163258467287 / 9007199254740992) = Fin (8962163258467287 / 9007199254740992)"
proof -
  have "round64 (8962163258467287 / 9007199254740992) = Fin (of_int 8962163258467287 * pow2 (- 1 - 52))"
    by (rule round64_eval) (simp_all add: pow2_def rne_def)
  then show ?thesis by (simp add: pow2_def)
qed

lemma round64_p995_times_3: "round64 (26886489775401861 / 9007199254740992) = Fin (6721622443850465 / 2251799813685248)"
proof -
  have "round64 (26886489775401861 / 9007199254740992) = Fin (of_int 6721622443850465 * pow2 (1 - 52))"
    by (rule round64_eval) (simp_all add: pow2_def rne_def)
  then show ?thesis by (simp add: pow2_def)
qed

lemma round64_p995_times_100: "round64 (224054081461682175 / 2251799813685248) = Fin (199 / 2)"
proof -
  have "round64 (224054081461682175 / 2251799813685248) = Fin (of_int 7001690045677568 * pow2 (6 - 52))"
    by (rule round64_eval) (simp_all add: pow2_def rne_def)
  then show ?thesis by (simp add: pow2_def)
qed

lemma round64_tenth: "round64 (1 / 10) = Fin (3602879701896397 / 36028797018963968)"
proof -
  have "round64 (1 / 10) = Fin (of_int 7205759403792794 * pow2 (- 4 - 52))"
    by (rule round64_eval) (simp_all add: pow2_def rne_def)
  then show ?thesis by (simp add: pow2_def)
qed

lemma round64_tenth_plus_1: "round64 (39631676720860365 / 36028797018963968) = Fin (2476979795053773 / 2251799813685248)"
proof -
  have "round64 (39631676720860365 / 36028797018963968) = Fin (of_int 4953959590107546 * pow2 (0 - 52))"
    by (rule round64_eval) (simp_all add: pow2_def rne_def)
  then show ?thesis by (simp add: pow2_def)
qed

lemma round64_tenth_plus_1_minus_1: "round64 (225179981368525 / 2251799813685248) = Fin (225179981368525 / 2251799813685248)"
proof -
  have "round64 (225179981368525 / 2251799813685248) = Fin (of_int 7205759403792800 * pow2 (- 4 - 52))"
    by (rule round64_eval) (simp_all add: pow2_def rne_def)
  then show ?thesis by (simp add: pow2_def)
qed

lemma round64_c95: "round64 (19 / 20) = Fin (4278419646001971 / 4503599627370496)"
proof -
  have "round64 (19 / 20) = Fin (of_int 8556839292003942 * pow2 (- 1 - 52))"
    by (rule round64_eval) (simp_all add: pow2_def rne_def)
  then show ?thesis by (simp add: pow2_def)
qed

lemma round64_1_minus_c95: "round64 (225179981368525 / 4503599627370496) = Fin (225179981368525 / 4503599627370496)"
proof -
  have "round64 (225179981368525 / 4503599627370496) = Fin (of_int 7205759403792800 * pow2 (- 5 - 52))"
    by (rule round64_eval) (simp_all add: pow2_def rne_def)
  then show ?thesis by (simp add: pow2_def)
qed

lemma round64_alpha95: "round64 (225179981368525 / 9007199254740992) = Fin (225179981368525 / 9007199254740992)"
proof -
  have "round64 (225179981368525 / 9007199254740992) = Fin (of_int 7205759403792800 * pow2 (- 6 - 52))"
    by (rule round64_eval) (simp_all add: pow2_def rne_def)
  then show ?thesis by (simp add: pow2_def)
qed

lemma round64_1_minus_alpha95: "round64 (8782019273372467 / 9007199254740992) = Fin (8782019273372467 / 9007199254740992)"
proof -
  have "round64 (8782019273372467 / 9007199254740992) = Fin (of_int 8782019273372467 * pow2 (- 1 - 52))"
    by (rule round64_eval) (simp_all add: pow2_def rne_def)
  then show ?thesis by (simp add: pow2_def)
qed

lemma round64_3_tenths_product: "round64 (10808639105689191 / 36028797018963968) = Fin (1351079888211149 / 4503599627370496)"
proof -
  have "round64 (10808639105689191 / 36028797018963968) = Fin (of_int 5404319552844596 * pow2 (- 2 - 52))"
    by (rule round64_eval) (simp_all add: pow2_def rne_def)
  then show ?thesis by (simp add: pow2_def)
qed

lemma round64_1_plus_3_tenths_product: "round64 (5854679515581645 / 4503599627370496) = Fin (5854679515581645 / 4503599627370496)"
proof -
  have "round64 (5854679515581645 / 4503599627370496) = Fin (of_int 5854679515581645 * pow2 (0 - 52))"
    by (rule round64_eval) (simp_all add: pow2_def rne_def)
  then show ?thesis by (simp add: pow2_def)
qed

lemma round64_3_tenths_product_id: "round64 (1351079888211149 / 4503599627370496) = Fin (1351079888211149 / 4503599627370496)"
proof -
  have "round64 (1351079888211149 / 4503599627370496) = Fin (of_int 5404319552844596 * pow2 (- 2 - 52))"
    by (rule round64_eval) (simp_all add: pow2_def rne_def)
  then show ?thesis by (simp add: pow2_def)
qed

lemma round64_mu_code: "round64 (1351079888211149 / 5854679515581645) = Fin (4157168886803535 / 18014398509481984)"
proof -
  have "round64 (1351079888211149 / 5854679515581645) = Fin (of_int 8314337773607070 * pow2 (- 3 - 52))"
    by (rule round64_eval) (simp_all add: pow2_def rne_def)
  then show ?thesis by (simp add: pow2_def)
qed

lemma round64_3_tenths: "round64 (3 / 10) = Fin (5404319552844595 / 18014398509481984)"
proof -
  have "round64 (3 / 10) = Fin (of_int 5404319552844595 * pow2 (- 2 - 52))"
    by (rule round64_eval) (simp_all add: pow2_def rne_def)
  then show ?thesis by (simp add: pow2_def)
qed

lemma round64_1_plus_3_tenths: "round64 (23418718062326579 / 18014398509481984) = Fin (5854679515581645 / 4503599627370496)"
proof -
  have "round64 (23418718062326579 / 18014398509481984) = Fin (of_int 5854679515581645 * pow2 (0 - 52))"
    by (rule round64_eval) (simp_all add: pow2_def rne_def)
  then show ?thesis by (simp add: pow2_def)
qed

lemma round64_3_tenths_id: "round64 (5404319552844595 / 18014398509481984) = Fin (5404319552844595 / 18014398509481984)"
proof -
  have "round64 (5404319552844595 / 18014398509481984) = Fin (of_int 5404319552844595 * pow2 (- 2 - 52))"
    by (rule round64_eval) (simp_all add: pow2_def rne_def)
  then show ?thesis by (simp add: pow2_def)
qed

lemma round64_mu_formula: "round64 (1080863910568919 / 4683743612465316) = Fin (8314337773607069 / 36028797018963968)"
proof -
  have "round64 (1080863910568919 / 4683743612465316) = Fin (of_int 8314337773607069 * pow2 (- 3 - 52))"
    by (rule round64_eval) (simp_all add: pow2_def rne_def)
  then show ?thesis by (simp add: pow2_def)
qed

lemma round64_two_m60: "round64 (1 / 1152921504606846976) = Fin (1 / 1152921504606846976)"
proof -
  have "round64 (1 / 1152921504606846976) = Fin (of_int 4503599627370496 * pow2 (- 60 - 52))"
    by (rule round64_eval) (simp_all add: pow2_def rne_def)
  then show ?thesis by (simp add: pow2_def)
qed

lemma round64_1_plus_two_m60: "round64 (1152921504606846977 / 1152921504606846976) = Fin (1)"
proof -
  have "round64 (1152921504606846977 / 1152921504606846976) = Fin (of_int 4503599627370496 * pow2 (0 - 52))"
    by (rule round64_eval) (simp_all add: pow2_def rne_def)
  then show ?thesis by (simp add: pow2_def)
qed

lemma round64_tenth_id: "round64 (3602879701896397 / 36028797018963968) = Fin (3602879701896397 / 36028797018963968)"
proof -
  have "round64 (3602879701896397 / 36028797018963968) = Fin (of_int 7205759403792794 * pow2 (- 4 - 52))"
    by (rule round64_eval) (simp_all add: pow2_def rne_def)
  then show ?thesis by (simp add: pow2_def)
qed






subsection \<open>Underflow\<close>




subsection \<open>The relative error of one rounding\<close>









lemma close_to_pos: "close_to k a b \<Longrightarrow> 0 < a \<and> 0 < b"
  by (simp add: close_to_def)



lemma close_to_sym: "close_to k a b \<Longrightarrow> close_to k b a"
  by (simp add: close_to_def)


















section \<open>Properties of the Beta model\<close>

lemma count_successes_exact:
  assumes "\<forall>m \<le> j + length data. r (real m) = Fin (real m)"
  shows "count_successes r (Fin (real j)) data =
         Fin (real (j + length (filter (\<lambda>x. fgt x (Fin 0)) data)))"
  using assms
proof (induction data arbitrary: j)
  case Nil
  then show ?case by simp
next
  case (Cons x data)
  show ?case
  proof (cases "fgt x (Fin 0)")
    case True
    have "Suc j \<le> j + length (x # data)" by simp
    with Cons.prems have "r (real (Suc j)) = Fin (real (Suc j))" by blast
    then have step: "fadd r (Fin (real j)) (Fin 1) = Fin (real (Suc j))"
      by (simp add: add.commute)
    have "\<forall>m \<le> Suc j + length data. r (real m) = Fin (real m)" using Cons.prems by simp
    from Cons.IH [OF this] show ?thesis using True step by simp
  next
    case False
    have "\<forall>m \<le> j + length data. r (real m) = Fin (real m)" using Cons.prems by simp
    from Cons.IH [OF this] show ?thesis using False by simp
  qed
qed

text \<open>
  What \<open>Beta.Update\<close> computes. For data of which \<open>k\<close> of the \<open>n\<close> entries are above 0 it
  returns the parameters \<open>\<alpha> + k\<close> and \<open>(\<beta> + n) - k\<close>, where each sum and the difference is
  an operation of float64, rounded on its own, in the order of the source line
  \<open>b.Beta+trials-successes\<close>. The hypothesis says that the counts up to \<open>n\<close> are values of
  the format, which holds for \<open>round64\<close> up to \<open>2^53\<close> and for \<open>exact\<close> always.
\<close>

lemma Beta_Update_rounded_parameters:
  assumes "\<forall>m \<le> length data. r (real m) = Fin (real m)"
  shows "Beta_Update r b data =
           BetaPosterior (NewBeta
             (fadd r (Alpha b) (Fin (real (length (filter (\<lambda>x. fgt x (Fin 0)) data)))))
             (fsub r (fadd r (Beta b) (Fin (real (length data))))
                     (Fin (real (length (filter (\<lambda>x. fgt x (Fin 0)) data))))))"
proof -
  have "count_successes r (Fin (real 0)) data =
          Fin (real (0 + length (filter (\<lambda>x. fgt x (Fin 0)) data)))"
    by (rule count_successes_exact) (use assms in simp)
  then have "count_successes r (Fin 0) data =
          Fin (real (length (filter (\<lambda>x. fgt x (Fin 0)) data)))" by simp
  moreover have "of_len r (length data) = Fin (real (length data))"
    using assms by (simp add: of_len_def)
  ultimately show ?thesis by (simp add: Beta_Update_def Let_def)
qed

text \<open>
  The scenario of the specification: 120 successes of 1000 on the prior Beta(1, 1) give the
  posterior Beta(121, 881); here every intermediate value is a small integer and nothing is
  rounded.
\<close>

lemma Beta_Update_scenario:
  "Beta_Update round64 (NewBeta (Fin 1) (Fin 1)) (replicate 120 (Fin 1) @ replicate 880 (Fin 0)) =
     BetaPosterior (NewBeta (Fin 121) (Fin 881))"
proof -
  have h: "\<forall>m \<le> length (replicate 120 (Fin 1) @ replicate 880 (Fin 0)).
       round64 (real m) = Fin (real m)"
  proof (intro allI impI)
    fix m :: nat
    assume "m \<le> length (replicate 120 (Fin 1) @ replicate 880 (Fin 0))"
    then have "m \<le> 1000" by simp
    also have "(1000::nat) \<le> 2 ^ 53" by simp
    finally show "round64 (real m) = Fin (real m)" by (rule round64_of_nat)
  qed
  show ?thesis
    using Beta_Update_rounded_parameters [OF h, of "NewBeta (Fin 1) (Fin 1)"]
    by (simp add: NewBeta_def fgt_def fsub_def round64_numeral)
qed

text \<open>
  C1. \<open>Beta.Update\<close> does not always return the parameter \<open>\<beta> + n - k\<close>. The source adds
  \<open>n\<close> to \<open>\<beta>\<close>, rounds, and only then takes \<open>k\<close> away, so the low bits of \<open>\<beta>\<close> that the
  first sum drops are lost. On the prior Beta(1, 0.1) and the data [1] (\<open>n = k = 1\<close>) the
  value \<open>\<beta> + n - k\<close> is \<open>\<beta>\<close> itself, a float64, and \<open>Update\<close> returns
  0.10000000000000009 in its place; on the prior Beta(1, \<open>2^-60\<close>) and the same data it
  returns \<open>\<beta>' = 0\<close>, which is not a parameter of a Beta distribution. In both cases the
  prior's \<open>\<beta>\<close> is a value of the format (first and fourth conjunct), the posterior is the
  one displayed, and its second parameter is not \<open>\<beta> + 1 - 1\<close>.
\<close>

theorem Beta_Update_beta_rounded:
  "representable round64 (Fin (3602879701896397 / 36028797018963968)) \<and>
   Beta_Update round64 (NewBeta (Fin 1) (Fin (3602879701896397 / 36028797018963968))) [Fin 1] =
     BetaPosterior (NewBeta (Fin 2) (Fin (225179981368525 / 2251799813685248))) \<and>
   (225179981368525 / 2251799813685248 :: real) \<noteq> 3602879701896397 / 36028797018963968 + 1 - 1 \<and>
   representable round64 (Fin (1 / 2 ^ 60)) \<and>
   Beta_Update round64 (NewBeta (Fin 1) (Fin (1 / 2 ^ 60))) [Fin 1] =
     BetaPosterior (NewBeta (Fin 2) (Fin 0)) \<and>
   (0 :: real) \<noteq> 1 / 2 ^ 60 + 1 - 1"
  by (simp add: representable_def Beta_Update_def NewBeta_def fgt_def fsub_def
      of_len_def round64_numeral round64_tenth_plus_1 round64_tenth_plus_1_minus_1
      round64_two_m60 round64_1_plus_two_m60 round64_tenth_id)

text \<open>
  C4. \<open>Beta.UpdateSingle(x)\<close> and \<open>Beta.Update([x])\<close> do not always return the same
  parameters. On the prior Beta(1, 0.1) and the observation 1, \<open>UpdateSingle\<close> leaves \<open>\<beta>\<close> as
  it is, and \<open>Update\<close> computes \<open>(\<beta> + 1) - 1\<close>, which is 0.10000000000000009 in float64: the
  sum \<open>0.1 + 1\<close> is rounded before 1 is taken away again.
\<close>

theorem UpdateSingle_differs_from_Update:
  "round64 (1 / 10) = Fin (3602879701896397 / 36028797018963968) \<and>
   Beta_UpdateSingle round64 (NewBeta (Fin 1) (Fin (3602879701896397 / 36028797018963968))) (Fin 1) =
     BetaPosterior (NewBeta (Fin 2) (Fin (3602879701896397 / 36028797018963968))) \<and>
   Beta_Update round64 (NewBeta (Fin 1) (Fin (3602879701896397 / 36028797018963968))) [Fin 1] =
     BetaPosterior (NewBeta (Fin 2) (Fin (225179981368525 / 2251799813685248))) \<and>
   Beta_UpdateSingle round64 (NewBeta (Fin 1) (Fin (3602879701896397 / 36028797018963968))) (Fin 1) \<noteq>
   Beta_Update round64 (NewBeta (Fin 1) (Fin (3602879701896397 / 36028797018963968))) [Fin 1]"
  by (simp add: round64_tenth Beta_UpdateSingle_def Beta_Update_def NewBeta_def fgt_def fsub_def
      of_len_def round64_numeral round64_tenth_plus_1 round64_tenth_plus_1_minus_1)

text \<open>
  Without rounding the two functions agree on every prior and observation, and with any
  rounding they agree on a failure (an observation not above 0) as soon as \<open>\<alpha>\<close> and
  \<open>\<beta> + 1\<close> are values of the format.
\<close>

lemma UpdateSingle_eq_Update_exact:
  "Beta_UpdateSingle exact b x = Beta_Update exact b [x]"
proof -
  have a0: "fadd exact a (Fin 0) = a" for a by (cases a) (simp_all add: exact_def)
  have b1: "fsub exact (fadd exact a (Fin 1)) (Fin 1) = a" for a
    by (cases a) (simp_all add: exact_def fsub_def)
  have b0: "fsub exact a (Fin 0) = a" for a by (cases a) (simp_all add: exact_def fsub_def)
  have len: "of_len exact (length [x]) = Fin 1" by (simp add: of_len_def exact_def)
  show ?thesis
    unfolding Beta_UpdateSingle_def Beta_Update_def Let_def len
    by (simp add: a0 b1 b0 exact_def)
qed

lemma UpdateSingle_eq_Update_failure:
  assumes "\<not> fgt x (Fin 0)" and "representable r (Alpha b)"
    and "representable r (fadd r (Beta b) (Fin 1))" and "r 1 = Fin 1"
  shows "Beta_UpdateSingle r b x = Beta_Update r b [x]"
proof -
  have a0: "fadd r (Alpha b) (Fin 0) = Alpha b"
    using assms(2) by (cases "Alpha b") (simp_all add: representable_def)
  have b0: "fsub r (fadd r (Beta b) (Fin 1)) (Fin 0) = fadd r (Beta b) (Fin 1)"
    using assms(3) by (cases "fadd r (Beta b) (Fin 1)") (simp_all add: representable_def fsub_def)
  show ?thesis
    using assms(1,4) a0 b0 by (simp add: Beta_UpdateSingle_def Beta_Update_def Let_def of_len_def)
qed

text \<open>
  C5, as the code has it. \<open>NewBeta\<close> checks nothing: for all parameters, also those that
  are not positive, it returns the Beta that stores them.
\<close>

theorem NewBeta_total:
  "Alpha (NewBeta alpha beta) = alpha \<and> Beta (NewBeta alpha beta) = beta \<and>
   bdist (NewBeta alpha beta) = \<lparr>dAlpha = alpha, dBeta = beta\<rparr>"
  by (simp add: NewBeta_def)

text \<open>
  \<open>NewBeta(-1, 0)\<close> returns a Beta, and \<open>Mode\<close> and \<open>UpdateSingle\<close> compute on it.
\<close>

theorem NewBeta_nonpositive_counterexample:
  "NewBeta (Fin (- 1)) (Fin 0) =
     \<lparr>Alpha = Fin (- 1), Beta = Fin 0, bdist = \<lparr>dAlpha = Fin (- 1), dBeta = Fin 0\<rparr>\<rparr> \<and>
   Beta_Mode round64 (NewBeta (Fin (- 1)) (Fin 0)) = [Fin 0, Fin 1] \<and>
   Beta_UpdateSingle round64 (NewBeta (Fin (- 1)) (Fin 0)) (Fin 1) =
     BetaPosterior (NewBeta (Fin 0) (Fin 0))"
  by (simp add: NewBeta_def Beta_Mode_def Beta_UpdateSingle_def fgt_def)

lemma flt_asym: "flt x y \<Longrightarrow> \<not> flt y x"
  by (cases x; cases y) auto

text \<open>
  C8. \<open>Beta.Mode\<close> returns the interior value \<open>(\<alpha> - 1) / (\<alpha> + \<beta> - 2)\<close> when \<open>\<alpha> > 1\<close> and
  \<open>\<beta> > 1\<close>, the pair 0, 1 when \<open>\<alpha> < 1\<close> and \<open>\<beta> < 1\<close>, the value 0 when \<open>\<alpha> < 1\<close> and
  \<open>\<beta> \<ge> 1\<close>, and the value 1 in every other case.
\<close>

theorem Beta_Mode_cases:
  "(fgt (Alpha b) (Fin 1) \<and> fgt (Beta b) (Fin 1) \<longrightarrow>
      Beta_Mode r b =
        [fdiv r (fsub r (Alpha b) (Fin 1)) (fsub r (fadd r (Alpha b) (Beta b)) (Fin 2))]) \<and>
   (flt (Alpha b) (Fin 1) \<and> flt (Beta b) (Fin 1) \<longrightarrow> Beta_Mode r b = [Fin 0, Fin 1]) \<and>
   (flt (Alpha b) (Fin 1) \<and> fge (Beta b) (Fin 1) \<longrightarrow> Beta_Mode r b = [Fin 0]) \<and>
   (\<not> (fgt (Alpha b) (Fin 1) \<and> fgt (Beta b) (Fin 1)) \<and>
    \<not> (flt (Alpha b) (Fin 1) \<and> flt (Beta b) (Fin 1)) \<and>
    \<not> (flt (Alpha b) (Fin 1) \<and> fge (Beta b) (Fin 1)) \<longrightarrow> Beta_Mode r b = [Fin 1])"
proof -
  have a: "flt (Alpha b) (Fin 1) \<Longrightarrow> \<not> fgt (Alpha b) (Fin 1)"
    unfolding fgt_def by (rule flt_asym)
  have c: "flt (Beta b) (Fin 1) \<Longrightarrow> \<not> fge (Beta b) (Fin 1)"
    unfolding fge_def by (cases "Beta b") auto
  show ?thesis using a c by (auto simp add: Beta_Mode_def)
qed

theorem Beta_Mode_cases_witness:
  "Beta_Mode round64 (NewBeta (Fin 3) (Fin 2)) = [Fin (6004799503160661 / 2 ^ 53)] \<and>
   Beta_Mode round64 (NewBeta (Fin (1 / 2)) (Fin (1 / 2))) = [Fin 0, Fin 1] \<and>
   Beta_Mode round64 (NewBeta (Fin (1 / 2)) (Fin 1)) = [Fin 0] \<and>
   Beta_Mode round64 (NewBeta (Fin 1) (Fin 1)) = [Fin 1] \<and>
   Beta_Mode round64 (NewBeta (Fin 2) (Fin (1 / 2))) = [Fin 1] \<and>
   Beta_Mode round64 (NewBeta NaN (Fin 2)) = [Fin 1]"
proof -
  have r: "round64 (2 / 3) = Fin (of_int 6004799503160661 * pow2 (- 1 - 52))"
    by (rule round64_eval) (simp_all add: pow2_def rne_def)
  show ?thesis
    using Beta_Mode_cases [of "NewBeta (Fin 3) (Fin 2)" round64]
      Beta_Mode_cases [of "NewBeta (Fin (1 / 2)) (Fin (1 / 2))" round64]
      Beta_Mode_cases [of "NewBeta (Fin (1 / 2)) (Fin 1)" round64]
      Beta_Mode_cases [of "NewBeta (Fin 1) (Fin 1)" round64]
      Beta_Mode_cases [of "NewBeta (Fin 2) (Fin (1 / 2))" round64]
      Beta_Mode_cases [of "NewBeta NaN (Fin 2)" round64]
    by (simp add: NewBeta_def fgt_def fge_def fsub_def round64_numeral r pow2_def)
qed

section \<open>Intervals of the posteriors\<close>

lemma confidence_levels:
  assumes "0 < c" and "c < 1"
  shows "\<exists>a b. fdiv round64 (fsub round64 (Fin 1) (Fin c)) (Fin 2) = Fin a \<and> 0 \<le> a \<and> a \<le> 1 \<and>
               fsub round64 (Fin 1) (Fin a) = Fin b \<and> 0 \<le> b \<and> b \<le> 1"
proof -
  have one: "(1::nat) \<le> 2 ^ 53" by simp
  obtain y where y: "round64 (1 - c) = Fin y" "0 \<le> y" "y \<le> 1"
    using round64_bounded [of "1 - c" 1] assms one by auto
  obtain a where a: "round64 (y / 2) = Fin a" "0 \<le> a" "a \<le> 1"
    using round64_bounded [of "y / 2" 1] y one by auto
  obtain b where b: "round64 (1 - a) = Fin b" "0 \<le> b" "b \<le> 1"
    using round64_bounded [of "1 - a" 1] a one by auto
  show ?thesis using y a b by (simp add: fsub_def)
qed

text \<open>
  C9. For \<open>BetaPosterior\<close> and \<open>NormalPosterior\<close>, \<open>HPD(c)\<close> is \<open>CredibleInterval(c)\<close>, which is
  the pair of \<open>Quantile((1 - c) / 2)\<close> and \<open>Quantile(1 - (1 - c) / 2)\<close>, the lower one evaluated
  first; this holds for every \<open>c\<close>, a panic of \<open>Quantile\<close> being the result of both. For a
  confidence level \<open>x\<close> in (0, 1) both probabilities are inside [0, 1] in binary64, no
  \<open>Quantile\<close> panics and the pair is returned.
\<close>

theorem HPD_is_CredibleInterval:
  "BetaPosterior_HPD r q bp c = BetaPosterior_CredibleInterval r q bp c \<and>
   BetaPosterior_CredibleInterval r q bp c =
     pbind (Beta_Quantile q (theBeta bp) (fdiv r (fsub r (Fin 1) c) (Fin 2))) (\<lambda>lower.
     pbind (Beta_Quantile q (theBeta bp) (fsub r (Fin 1) (fdiv r (fsub r (Fin 1) c) (Fin 2))))
       (\<lambda>upper. Inr (lower, upper))) \<and>
   NormalPosterior_HPD r nq np c = NormalPosterior_CredibleInterval r nq np c \<and>
   NormalPosterior_CredibleInterval r nq np c =
     pbind (Normal_Quantile r nq (theNormal np) (fdiv r (fsub r (Fin 1) c) (Fin 2))) (\<lambda>lower.
     pbind (Normal_Quantile r nq (theNormal np) (fsub r (Fin 1) (fdiv r (fsub r (Fin 1) c) (Fin 2))))
       (\<lambda>upper. Inr (lower, upper))) \<and>
   (0 < x \<and> x < 1 \<longrightarrow>
      (\<exists>lower upper.
         BetaPosterior_HPD round64 q bp (Fin x) = Inr (lower, upper) \<and>
         BetaPosterior_CredibleInterval round64 q bp (Fin x) = Inr (lower, upper) \<and>
         Beta_Quantile q (theBeta bp) (fdiv round64 (fsub round64 (Fin 1) (Fin x)) (Fin 2)) =
           Inr lower \<and>
         Beta_Quantile q (theBeta bp)
             (fsub round64 (Fin 1) (fdiv round64 (fsub round64 (Fin 1) (Fin x)) (Fin 2))) =
           Inr upper) \<and>
      (\<exists>lower upper.
         NormalPosterior_HPD round64 nq np (Fin x) = Inr (lower, upper) \<and>
         NormalPosterior_CredibleInterval round64 nq np (Fin x) = Inr (lower, upper) \<and>
         Normal_Quantile round64 nq (theNormal np)
             (fdiv round64 (fsub round64 (Fin 1) (Fin x)) (Fin 2)) =
           Inr lower \<and>
         Normal_Quantile round64 nq (theNormal np)
             (fsub round64 (Fin 1) (fdiv round64 (fsub round64 (Fin 1) (Fin x)) (Fin 2))) =
           Inr upper))"
proof -
  have g: "BetaPosterior_HPD r q bp c = BetaPosterior_CredibleInterval r q bp c \<and>
   BetaPosterior_CredibleInterval r q bp c =
     pbind (Beta_Quantile q (theBeta bp) (fdiv r (fsub r (Fin 1) c) (Fin 2))) (\<lambda>lower.
     pbind (Beta_Quantile q (theBeta bp) (fsub r (Fin 1) (fdiv r (fsub r (Fin 1) c) (Fin 2))))
       (\<lambda>upper. Inr (lower, upper))) \<and>
   NormalPosterior_HPD r nq np c = NormalPosterior_CredibleInterval r nq np c \<and>
   NormalPosterior_CredibleInterval r nq np c =
     pbind (Normal_Quantile r nq (theNormal np) (fdiv r (fsub r (Fin 1) c) (Fin 2))) (\<lambda>lower.
     pbind (Normal_Quantile r nq (theNormal np) (fsub r (Fin 1) (fdiv r (fsub r (Fin 1) c) (Fin 2))))
       (\<lambda>upper. Inr (lower, upper)))"
    by (simp add: BetaPosterior_HPD_def BetaPosterior_CredibleInterval_def
      NormalPosterior_HPD_def NormalPosterior_CredibleInterval_def Let_def)
  have "(\<exists>lower upper.
         BetaPosterior_HPD round64 q bp (Fin x) = Inr (lower, upper) \<and>
         BetaPosterior_CredibleInterval round64 q bp (Fin x) = Inr (lower, upper) \<and>
         Beta_Quantile q (theBeta bp) (fdiv round64 (fsub round64 (Fin 1) (Fin x)) (Fin 2)) =
           Inr lower \<and>
         Beta_Quantile q (theBeta bp)
             (fsub round64 (Fin 1) (fdiv round64 (fsub round64 (Fin 1) (Fin x)) (Fin 2))) =
           Inr upper) \<and>
      (\<exists>lower upper.
         NormalPosterior_HPD round64 nq np (Fin x) = Inr (lower, upper) \<and>
         NormalPosterior_CredibleInterval round64 nq np (Fin x) = Inr (lower, upper) \<and>
         Normal_Quantile round64 nq (theNormal np)
             (fdiv round64 (fsub round64 (Fin 1) (Fin x)) (Fin 2)) =
           Inr lower \<and>
         Normal_Quantile round64 nq (theNormal np)
             (fsub round64 (Fin 1) (fdiv round64 (fsub round64 (Fin 1) (Fin x)) (Fin 2))) =
           Inr upper)"
    if "0 < x \<and> x < 1"
  proof -
    from that obtain a b where
      "fdiv round64 (fsub round64 (Fin 1) (Fin x)) (Fin 2) = Fin a" "0 \<le> a" "a \<le> 1"
      "fsub round64 (Fin 1) (Fin a) = Fin b" "0 \<le> b" "b \<le> 1"
      using confidence_levels [of x] by blast
    then show ?thesis
      by (simp add: BetaPosterior_HPD_def BetaPosterior_CredibleInterval_def
          NormalPosterior_HPD_def NormalPosterior_CredibleInterval_def Let_def
          Beta_Quantile_def distuv_Beta_Quantile_def Normal_Quantile_def
          distuv_Normal_Quantile_def fgt_def pbind_def)
  qed
  with g show ?thesis by blast
qed

text \<open>
  At the confidence 0.95 on the posterior Beta(121, 881), both quantiles are inside [0, 1]
  and the pair is returned, whatever \<open>mathext.InvRegIncBeta\<close> computes.
\<close>

theorem HPD_is_CredibleInterval_witness:
  "\<forall>q. BetaPosterior_HPD round64 q (BetaPosterior (NewBeta (Fin 121) (Fin 881))) (round64 (95 / 100)) =
     Inr (q (Fin 121) (Fin 881) (Fin (225179981368525 / 9007199254740992)), q (Fin 121) (Fin 881) (Fin (8782019273372467 / 9007199254740992)))"
proof
  fix q
  show "BetaPosterior_HPD round64 q (BetaPosterior (NewBeta (Fin 121) (Fin 881))) (round64 (95 / 100)) =
     Inr (q (Fin 121) (Fin 881) (Fin (225179981368525 / 9007199254740992)), q (Fin 121) (Fin 881) (Fin (8782019273372467 / 9007199254740992)))"
    using HPD_is_CredibleInterval [of round64 q "BetaPosterior (NewBeta (Fin 121) (Fin 881))"
        "round64 (95 / 100)"]
    by (simp add: round64_c95 fsub_def round64_1_minus_c95 round64_alpha95
        round64_1_minus_alpha95 Beta_Quantile_def distuv_Beta_Quantile_def
        NewBeta_def pbind_def fgt_def)
qed

section \<open>The conjugate update of the Normal model\<close>



text \<open>
  In binary64 the update and the formulas, evaluated operation by operation, can differ in
  the last place: on the prior \<open>NormalConjugate(0, 1, 10)\<close> and the data 1, 1, 1 the update
  returns the mean 0.23076923076923078 (first equation), and
  \<open>(\<mu>\<^sub>0 / \<sigma>\<^sub>0\<^sup>2 + n * xbar / v) / (1 / \<sigma>\<^sub>0\<^sup>2 + n / v)\<close> is 0.23076923076923075 (second equation).
\<close>

lemma NormalConjugate_Update_binary64_example:
  "Mu (theNormal (NormalConjugate_Update round64 (NewNormalConjugate (Fin 0) (Fin 1) (Fin 10))
         [Fin 1, Fin 1, Fin 1])) =
     Fin (4157168886803535 / 18014398509481984)"
  "fdiv round64
     (fadd round64 (fdiv round64 (Fin 0) (fmul round64 (Fin 1) (Fin 1)))
        (fdiv round64 (fmul round64 (Fin 3) (Fin 1)) (Fin 10)))
     (fadd round64 (fdiv round64 (Fin 1) (fmul round64 (Fin 1) (Fin 1)))
        (fdiv round64 (Fin 3) (Fin 10))) =
     Fin (8314337773607069 / 36028797018963968)"
  by (simp_all add: NormalConjugate_Update_def NewNormalConjugate_def NewNormal_def of_len_def
      Let_def round64_numeral round64_tenth round64_3_tenths_product
      round64_1_plus_3_tenths_product round64_3_tenths_product_id round64_mu_code
      round64_3_tenths round64_1_plus_3_tenths round64_3_tenths_id round64_mu_formula)

subsection \<open>The error of the update in binary64\<close>














section \<open>Properties of ComputeSummary\<close>

lemma ComputeSummary_eq:
  assumes "samples < length h"
  shows "ComputeSummary r h samples =
     (pbind (stat_Quantile r (r (5 / 10)) (sorted_list (h ! samples))) (\<lambda>median.
      pbind (stat_Quantile r (r (25 / 1000)) (sorted_list (h ! samples))) (\<lambda>lo95.
      pbind (stat_Quantile r (r (975 / 1000)) (sorted_list (h ! samples))) (\<lambda>hi95.
      pbind (stat_Quantile r (r (5 / 1000)) (sorted_list (h ! samples))) (\<lambda>lo99.
      pbind (stat_Quantile r (r (995 / 1000)) (sorted_list (h ! samples))) (\<lambda>hi99.
        Inr \<lparr>Mean = stat_Mean r (h ! samples), Median = median,
             Mode = estimateMode r (h ! samples), Variance = stat_Variance r (h ! samples),
             StdDev = stat_StdDev r (h ! samples), CI95 = (lo95, hi95), CI99 = (lo99, hi99),
             Samples = samples\<rparr>))))),
      h @ [sorted_list (h ! samples)])"
  using assms
  by (simp add: ComputeSummary_def go_make_def go_copy_def slices_Sort_def Let_def nth_append)

lemma ComputeSummary_fields:
  assumes "samples < length h" and "fst (ComputeSummary r h samples) = Inr s"
  shows "Samples s = samples"
    and "Mean s = stat_Mean r (h ! samples)"
    and "Variance s = stat_Variance r (h ! samples)"
    and "StdDev s = stat_StdDev r (h ! samples)"
    and "stat_Quantile r (r (5 / 10)) (sorted_list (h ! samples)) = Inr (Median s)"
    and "stat_Quantile r (r (25 / 1000)) (sorted_list (h ! samples)) = Inr (fst (CI95 s))"
    and "stat_Quantile r (r (975 / 1000)) (sorted_list (h ! samples)) = Inr (snd (CI95 s))"
    and "stat_Quantile r (r (5 / 1000)) (sorted_list (h ! samples)) = Inr (fst (CI99 s))"
    and "stat_Quantile r (r (995 / 1000)) (sorted_list (h ! samples)) = Inr (snd (CI99 s))"
  using assms by (auto simp add: ComputeSummary_eq pbind_def split: sum.splits)

lemma empiricalQuantile_loop_mem:
  "empiricalQuantile_loop r fidx c x = Inr v \<Longrightarrow> v \<in> set x"
  by (induction x arbitrary: c) (auto simp add: Let_def split: if_splits)

lemma stat_Quantile_mem: "stat_Quantile r p x = Inr v \<Longrightarrow> v \<in> set x"
  by (auto simp add: stat_Quantile_def floats_HasNaN_def empiricalQuantile_def
      split: if_splits dest: empiricalQuantile_loop_mem)

lemma set_insert_sorted: "set (insert_sorted x ys) = insert x (set ys)"
  by (induction ys) auto

lemma set_sorted_list: "set (sorted_list xs) = set xs"
  by (induction xs) (auto simp add: set_insert_sorted)

lemma mset_insert_sorted: "mset (insert_sorted x ys) = add_mset x (mset ys)"
  by (induction ys) auto

lemma mset_sorted_list: "mset (sorted_list xs) = mset xs"
  by (induction xs) (auto simp add: mset_insert_sorted)

lemma empiricalQuantile_loop_at:
  assumes "\<forall>m \<le> j + length x. r (real m) = Fin (real m)"
    and "i < length x" and "real (j + i) < f" and "f \<le> real (j + i + 1)"
  shows "empiricalQuantile_loop r (Fin f) (Fin (real j)) x = Inr (x ! i)"
  using assms
proof (induction x arbitrary: i j)
  case Nil
  then show ?case by simp
next
  case (Cons y ys)
  have "Suc j \<le> j + length (y # ys)" by simp
  with Cons.prems(1) have "r (real (Suc j)) = Fin (real (Suc j))" by blast
  then have step: "fadd r (Fin (real j)) (Fin 1) = Fin (real (Suc j))"
    by (simp add: add.commute)
  show ?case
  proof (cases i)
    case 0
    then show ?thesis using Cons.prems(4) step by (simp add: Let_def fge_def)
  next
    case (Suc i')
    have a: "\<forall>m \<le> Suc j + length ys. r (real m) = Fin (real m)" using Cons.prems(1) by simp
    have b: "i' < length ys" using Cons.prems(2) Suc by simp
    have c: "real (Suc j + i') < f" using Cons.prems(3) Suc by simp
    have d: "f \<le> real (Suc j + i' + 1)" using Cons.prems(4) Suc by simp
    have "\<not> f \<le> real (Suc j)" using c by simp
    then show ?thesis using Cons.IH [OF a b c d] step Suc by (simp add: Let_def fge_def)
  qed
qed

lemma Float64sAreSorted_nth:
  "(\<And>i. Suc i < length xs \<Longrightarrow> \<not> cmp_Less (xs ! Suc i) (xs ! i)) \<Longrightarrow> Float64sAreSorted xs"
proof (induction xs rule: Float64sAreSorted.induct)
  case (1 x y zs)
  have "\<not> cmp_Less y x" using "1.prems" [of 0] by simp
  moreover have "Float64sAreSorted (y # zs)"
  proof (rule "1.IH")
    show "\<not> cmp_Less y x" by fact
    fix i assume "Suc i < length (y # zs)"
    then show "\<not> cmp_Less ((y # zs) ! Suc i) ((y # zs) ! i)" using "1.prems" [of "Suc i"] by simp
  qed
  ultimately show ?case by simp
qed simp_all

lemma sorted_list_id: "Float64sAreSorted xs \<Longrightarrow> sorted_list xs = xs"
proof (induction xs rule: Float64sAreSorted.induct)
  case (1 x y zs)
  then show ?case by (simp split: if_splits)
qed simp_all

lemma stat_Quantile_at:
  assumes "0 \<le> p" "p \<le> 1" "NaN \<notin> set x" "Float64sAreSorted x" "length x \<le> 2 ^ 53"
    and "round64 (p * real (length x)) = Fin f"
    and "i < length x" "real i < f" "f \<le> real (i + 1)"
  shows "stat_Quantile round64 (Fin p) x = Inr (x ! i)"
proof -
  have ex: "\<forall>m \<le> 0 + length x. round64 (real m) = Fin (real m)"
    using assms(5) by (auto intro: round64_of_nat)
  have len: "of_len round64 (length x) = Fin (real (length x))"
    using assms(5) by (simp add: of_len_def round64_of_nat)
  have "empiricalQuantile_loop round64 (Fin f) (Fin (real 0)) x = Inr (x ! i)"
    by (rule empiricalQuantile_loop_at [OF ex]) (use assms in simp_all)
  then show ?thesis
    using assms(1-4,6,7) len
    by (auto simp add: stat_Quantile_def empiricalQuantile_def floats_HasNaN_def fge_def)
qed

lemma cmp_Less_asym: "cmp_Less x y \<Longrightarrow> \<not> cmp_Less y x"
  by (cases x; cases y) (auto simp add: cmp_Less_def)

lemma Float64sAreSorted_Cons:
  "Float64sAreSorted (x # ys) = ((ys = [] \<or> \<not> cmp_Less (hd ys) x) \<and> Float64sAreSorted ys)"
  by (cases ys) auto

lemma hd_insert_sorted: "hd (insert_sorted x ys) = x \<or> (ys \<noteq> [] \<and> hd (insert_sorted x ys) = hd ys)"
  by (cases ys) auto

lemma insert_sorted_not_Nil [simp]: "insert_sorted x ys \<noteq> []"
  by (cases ys) auto

lemma Float64sAreSorted_insert_sorted:
  "Float64sAreSorted ys \<Longrightarrow> Float64sAreSorted (insert_sorted x ys)"
proof (induction ys)
  case Nil
  then show ?case by simp
next
  case (Cons y ys)
  show ?case
  proof (cases "cmp_Less y x")
    case True
    have s: "Float64sAreSorted (insert_sorted x ys)"
      using Cons by (simp add: Float64sAreSorted_Cons)
    have "\<not> cmp_Less (hd (insert_sorted x ys)) y"
      using hd_insert_sorted [of x ys] True Cons.prems
      by (auto simp add: Float64sAreSorted_Cons dest: cmp_Less_asym)
    with s True show ?thesis by (simp add: Float64sAreSorted_Cons)
  next
    case False
    with Cons.prems show ?thesis by (simp add: Float64sAreSorted_Cons)
  qed
qed

lemma Float64sAreSorted_sorted_list: "Float64sAreSorted (sorted_list xs)"
  by (induction xs) (simp_all add: Float64sAreSorted_insert_sorted)

lemma empiricalQuantile_loop_returns:
  assumes "\<forall>m \<le> j + length x. r (real m) = Fin (real m)"
    and "x \<noteq> []" and "f \<le> real (j + length x)"
  shows "\<exists>v. empiricalQuantile_loop r (Fin f) (Fin (real j)) x = Inr v"
  using assms
proof (induction x arbitrary: j)
  case Nil
  then show ?case by simp
next
  case (Cons y ys)
  have "Suc j \<le> j + length (y # ys)" by simp
  with Cons.prems(1) have "r (real (Suc j)) = Fin (real (Suc j))" by blast
  then have step: "fadd r (Fin (real j)) (Fin 1) = Fin (real (Suc j))"
    by (simp add: add.commute)
  show ?case
  proof (cases "f \<le> real (Suc j)")
    case True
    then show ?thesis using step by (simp add: Let_def fge_def)
  next
    case False
    then have ne: "ys \<noteq> []" using Cons.prems(3) by (cases ys) auto
    have a: "\<forall>m \<le> Suc j + length ys. r (real m) = Fin (real m)" using Cons.prems(1) by simp
    have c: "f \<le> real (Suc j + length ys)" using Cons.prems(3) by simp
    from Cons.IH [OF a ne c] show ?thesis using False step by (simp add: Let_def fge_def)
  qed
qed

lemma stat_Quantile_returns:
  assumes "0 \<le> p" and "p \<le> 1" and "x \<noteq> []" and "length x \<le> 2 ^ 53"
    and "Float64sAreSorted x"
  shows "\<exists>v. stat_Quantile round64 (Fin p) x = Inr v"
proof (cases "floats_HasNaN x")
  case True
  then show ?thesis using assms(1,2,3) by (simp add: stat_Quantile_def fge_def)
next
  case False
  have ex: "\<forall>m \<le> 0 + length x. round64 (real m) = Fin (real m)"
    using assms(4) by (auto intro: round64_of_nat)
  have len: "of_len round64 (length x) = Fin (real (length x))"
    using assms(4) by (simp add: of_len_def round64_of_nat)
  have lo: "0 \<le> p * real (length x)" using assms(1) by simp
  have "p * real (length x) \<le> 1 * real (length x)"
    using assms(2) by (intro mult_right_mono) simp_all
  then have hi: "p * real (length x) \<le> real (length x)" by simp
  obtain f where f: "round64 (p * real (length x)) = Fin f" "f \<le> real (length x)"
    using round64_bounded [OF lo hi assms(4)] by blast
  have "\<exists>v. empiricalQuantile_loop round64 (Fin f) (Fin (real 0)) x = Inr v"
    by (rule empiricalQuantile_loop_returns [OF ex assms(3)]) (use f in simp)
  then show ?thesis
    using assms(1,2,3,5) False len f
    by (simp add: stat_Quantile_def empiricalQuantile_def fge_def)
qed

lemma length_insert_sorted: "length (insert_sorted x ys) = Suc (length ys)"
  by (induction ys) auto

lemma length_sorted_list: "length (sorted_list xs) = length xs"
  by (induction xs) (auto simp add: length_insert_sorted)

lemma stat_Quantile_sorted_list_returns:
  assumes "round64 c = Fin p" and "0 \<le> p" and "p \<le> 1"
    and "xs \<noteq> []" and "length xs \<le> 2 ^ 53"
  shows "\<exists>v. stat_Quantile round64 (round64 c) (sorted_list xs) = Inr v"
proof -
  have "sorted_list xs \<noteq> []" using assms(4) length_sorted_list [of xs] by auto
  then show ?thesis
    unfolding assms(1) using assms(2,3,5)
    by (intro stat_Quantile_returns) (simp_all add: length_sorted_list Float64sAreSorted_sorted_list)
qed

lemma ComputeSummary_returns:
  assumes "samples < length h" and "h ! samples \<noteq> []" and "length (h ! samples) \<le> 2 ^ 53"
  shows "\<exists>s. fst (ComputeSummary round64 h samples) = Inr s"
proof -
  have "\<exists>v. stat_Quantile round64 (round64 (1 / 2)) (sorted_list (h ! samples)) = Inr v"
    by (rule stat_Quantile_sorted_list_returns [OF round64_p50 _ _ assms(2,3)]) simp_all
  then obtain median where
    1: "stat_Quantile round64 (round64 (5 / 10)) (sorted_list (h ! samples)) = Inr median"
    by auto
  have "\<exists>v. stat_Quantile round64 (round64 (1 / 40)) (sorted_list (h ! samples)) = Inr v"
    by (rule stat_Quantile_sorted_list_returns [OF round64_p025 _ _ assms(2,3)]) simp_all
  then obtain lo95 where
    2: "stat_Quantile round64 (round64 (25 / 1000)) (sorted_list (h ! samples)) = Inr lo95"
    by auto
  have "\<exists>v. stat_Quantile round64 (round64 (39 / 40)) (sorted_list (h ! samples)) = Inr v"
    by (rule stat_Quantile_sorted_list_returns [OF round64_p975 _ _ assms(2,3)]) simp_all
  then obtain hi95 where
    3: "stat_Quantile round64 (round64 (975 / 1000)) (sorted_list (h ! samples)) = Inr hi95"
    by auto
  have "\<exists>v. stat_Quantile round64 (round64 (1 / 200)) (sorted_list (h ! samples)) = Inr v"
    by (rule stat_Quantile_sorted_list_returns [OF round64_p005 _ _ assms(2,3)]) simp_all
  then obtain lo99 where
    4: "stat_Quantile round64 (round64 (5 / 1000)) (sorted_list (h ! samples)) = Inr lo99"
    by auto
  have "\<exists>v. stat_Quantile round64 (round64 (199 / 200)) (sorted_list (h ! samples)) = Inr v"
    by (rule stat_Quantile_sorted_list_returns [OF round64_p995 _ _ assms(2,3)]) simp_all
  then obtain hi99 where
    5: "stat_Quantile round64 (round64 (995 / 1000)) (sorted_list (h ! samples)) = Inr hi99"
    by auto
  show ?thesis
    using assms(1) 1 2 3 4 5 by (simp add: ComputeSummary_eq pbind_def)
qed

text \<open>
  C10. \<open>ComputeSummary\<close> changes no array of the heap it is called on, the array of its
  input among them: the heap it leaves is the heap it found followed by one new array,
  the sorted copy, which holds the samples of the input in ascending order. The summary
  has the input slice itself as \<open>Samples\<close>, and its mean, variance and standard deviation
  are computed from the input as it stands. On a non-empty input (of at most \<open>2^53\<close>
  samples) a summary is returned.
\<close>

theorem ComputeSummary_frame:
  assumes "samples < length h"
  shows "snd (ComputeSummary r h samples) = h @ [sorted_list (h ! samples)] \<and>
         mset (sorted_list (h ! samples)) = mset (h ! samples) \<and>
         Float64sAreSorted (sorted_list (h ! samples)) \<and>
         (\<forall>s. fst (ComputeSummary r h samples) = Inr s \<longrightarrow>
            Samples s = samples \<and>
            snd (ComputeSummary r h samples) ! Samples s = h ! samples \<and>
            Mean s = stat_Mean r (h ! samples) \<and>
            Variance s = stat_Variance r (h ! samples) \<and>
            StdDev s = stat_StdDev r (h ! samples)) \<and>
         (h ! samples \<noteq> [] \<and> length (h ! samples) \<le> 2 ^ 53 \<longrightarrow>
            (\<exists>s. fst (ComputeSummary round64 h samples) = Inr s))"
proof -
  have heap: "snd (ComputeSummary r h samples) = h @ [sorted_list (h ! samples)]"
    using assms by (simp add: ComputeSummary_eq)
  have "snd (ComputeSummary r h samples) ! samples = h ! samples"
    using assms by (simp add: heap nth_append)
  then show ?thesis
    using heap ComputeSummary_fields [OF assms, of r] ComputeSummary_returns [OF assms]
    by (simp add: mset_sorted_list Float64sAreSorted_sorted_list)
qed

lemma stat_Quantile_single:
  assumes "0 \<le> p" "p \<le> 1" "round64 p = Fin p"
  shows "stat_Quantile round64 (Fin p) [v] = Inr v"
  using assms
  by (simp add: stat_Quantile_def floats_HasNaN_def empiricalQuantile_def of_len_def fge_def
      Let_def)

lemma stat_Variance_single:
  assumes "representable round64 v"
  shows "stat_Variance round64 [v] = NaN"
proof (cases v)
  case (Fin x)
  then have "round64 x = Fin x" using assms by (simp add: representable_def)
  then show ?thesis using Fin
    by (simp add: stat_Variance_def stat_MeanVariance_def meanUnnormalisedVariance_def
        stat_Mean_def floats_Sum_def of_len_def fsub_def Let_def)
qed (simp_all add: stat_Variance_def stat_MeanVariance_def meanUnnormalisedVariance_def
        stat_Mean_def floats_Sum_def of_len_def fsub_def Let_def)

lemma one_to_hundred_props:
  "length one_to_hundred = 100" "NaN \<notin> set one_to_hundred" "Float64sAreSorted one_to_hundred"
  "i < 100 \<Longrightarrow> one_to_hundred ! i = Fin (real (i + 1))"
proof -
  show "length one_to_hundred = 100" by (simp add: one_to_hundred_def)
  show "NaN \<notin> set one_to_hundred" by (auto simp add: one_to_hundred_def)
  show "Float64sAreSorted one_to_hundred"
    by (rule Float64sAreSorted_nth) (simp add: one_to_hundred_def cmp_Less_def)
  show "i < 100 \<Longrightarrow> one_to_hundred ! i = Fin (real (i + 1))"
    by (simp add: one_to_hundred_def add.commute)
qed

lemma one_to_hundred_quantiles:
  "stat_Quantile round64 (round64 (1 / 2)) one_to_hundred = Inr (Fin 50)"
  "stat_Quantile round64 (round64 (1 / 40)) one_to_hundred = Inr (Fin 3)"
  "stat_Quantile round64 (round64 (39 / 40)) one_to_hundred = Inr (Fin 98)"
  "stat_Quantile round64 (round64 (1 / 200)) one_to_hundred = Inr (Fin 1)"
  "stat_Quantile round64 (round64 (199 / 200)) one_to_hundred = Inr (Fin 100)"
proof -
  have "stat_Quantile round64 (Fin (1 / 2)) one_to_hundred = Inr (one_to_hundred ! 49)"
    by (rule stat_Quantile_at [where f = 50])
      (simp_all add: one_to_hundred_props round64_numeral)
  then show "stat_Quantile round64 (round64 (1 / 2)) one_to_hundred = Inr (Fin 50)"
    by (simp add: round64_p50 one_to_hundred_props)
  have "stat_Quantile round64 (Fin (3602879701896397 / 144115188075855872)) one_to_hundred =
          Inr (one_to_hundred ! 2)"
    by (rule stat_Quantile_at [where f = "5 / 2"])
      (simp_all add: one_to_hundred_props round64_p025_times_100)
  then show "stat_Quantile round64 (round64 (1 / 40)) one_to_hundred = Inr (Fin 3)"
    by (simp add: round64_p025 one_to_hundred_props)
  have "stat_Quantile round64 (Fin (8782019273372467 / 9007199254740992)) one_to_hundred =
          Inr (one_to_hundred ! 97)"
    by (rule stat_Quantile_at [where f = "195 / 2"])
      (simp_all add: one_to_hundred_props round64_p975_times_100)
  then show "stat_Quantile round64 (round64 (39 / 40)) one_to_hundred = Inr (Fin 98)"
    by (simp add: round64_p975 one_to_hundred_props)
  have "stat_Quantile round64 (Fin (5764607523034235 / 1152921504606846976)) one_to_hundred =
          Inr (one_to_hundred ! 0)"
    by (rule stat_Quantile_at [where f = "1 / 2"])
      (simp_all add: one_to_hundred_props round64_p005_times_100)
  then show "stat_Quantile round64 (round64 (1 / 200)) one_to_hundred = Inr (Fin 1)"
    by (simp add: round64_p005 one_to_hundred_props)
  have "stat_Quantile round64 (Fin (8962163258467287 / 9007199254740992)) one_to_hundred =
          Inr (one_to_hundred ! 99)"
    by (rule stat_Quantile_at [where f = "199 / 2"])
      (simp_all add: one_to_hundred_props round64_p995_times_100)
  then show "stat_Quantile round64 (round64 (199 / 200)) one_to_hundred = Inr (Fin 100)"
    by (simp add: round64_p995 one_to_hundred_props)
qed

lemma one_to_hundred_result:
  "fst (ComputeSummary round64 [one_to_hundred] 0) =
     Inr \<lparr>Mean = stat_Mean round64 one_to_hundred, Median = Fin 50,
          Mode = estimateMode round64 one_to_hundred,
          Variance = stat_Variance round64 one_to_hundred,
          StdDev = stat_StdDev round64 one_to_hundred,
          CI95 = (Fin 3, Fin 98), CI99 = (Fin 1, Fin 100), Samples = 0\<rparr>"
  by (simp add: ComputeSummary_eq sorted_list_id one_to_hundred_props one_to_hundred_quantiles
      pbind_def)

text \<open>
  On the samples 3, 1, 2 the whole summary and the heap.
\<close>

theorem ComputeSummary_frame_witness:
  "ComputeSummary round64 [[Fin 3, Fin 1, Fin 2]] 0 =
     (Inr \<lparr>Mean = Fin 2, Median = Fin 2, Mode = Fin 2, Variance = Fin 1, StdDev = Fin 1,
           CI95 = (Fin 1, Fin 3), CI99 = (Fin 1, Fin 3), Samples = 0\<rparr>,
      [[Fin 3, Fin 1, Fin 2], [Fin 1, Fin 2, Fin 3]])"
proof -
  have s: "sorted_list [Fin 3, Fin 1, Fin 2] = [Fin 1, Fin 2, Fin 3]"
    by (simp add: cmp_Less_def)
  have q: "stat_Quantile round64 (round64 (1 / 2)) [Fin 1, Fin 2, Fin 3] = Inr (Fin 2)"
    "stat_Quantile round64 (round64 (1 / 40)) [Fin 1, Fin 2, Fin 3] = Inr (Fin 1)"
    "stat_Quantile round64 (round64 (39 / 40)) [Fin 1, Fin 2, Fin 3] = Inr (Fin 3)"
    "stat_Quantile round64 (round64 (1 / 200)) [Fin 1, Fin 2, Fin 3] = Inr (Fin 1)"
    "stat_Quantile round64 (round64 (199 / 200)) [Fin 1, Fin 2, Fin 3] = Inr (Fin 3)"
    by (simp_all add: stat_Quantile_def floats_HasNaN_def empiricalQuantile_def of_len_def
        fge_def Let_def cmp_Less_def round64_numeral
        round64_p50 round64_p025 round64_p975 round64_p005 round64_p995
        round64_p50_times_3 round64_p025_times_3 round64_p975_times_3
        round64_p005_times_3 round64_p995_times_3)
  have m: "stat_Mean round64 [Fin 3, Fin 1, Fin 2] = Fin 2"
    by (simp add: stat_Mean_def floats_Sum_def of_len_def round64_numeral)
  have v: "stat_Variance round64 [Fin 3, Fin 1, Fin 2] = Fin 1"
    by (simp add: stat_Variance_def stat_MeanVariance_def meanUnnormalisedVariance_def m
        of_len_def fsub_def Let_def round64_numeral round64_neg_numeral)
  have d: "stat_StdDev round64 [Fin 3, Fin 1, Fin 2] = Fin 1"
    by (simp add: stat_StdDev_def v)
  have e: "fst (ComputeSummary round64 [[Fin 3, Fin 1, Fin 2]] 0) =
     Inr \<lparr>Mean = Fin 2, Median = Fin 2, Mode = Fin 2, Variance = Fin 1, StdDev = Fin 1,
           CI95 = (Fin 1, Fin 3), CI99 = (Fin 1, Fin 3), Samples = 0\<rparr>"
    by (simp add: ComputeSummary_eq cmp_Less_def q m v d pbind_def estimateMode_def)
  have "snd (ComputeSummary round64 [[Fin 3, Fin 1, Fin 2]] 0) =
          [[Fin 3, Fin 1, Fin 2], [Fin 1, Fin 2, Fin 3]]"
    using ComputeSummary_frame [of 0 "[[Fin 3, Fin 1, Fin 2]]" round64]
    by (simp add: cmp_Less_def)
  with e show ?thesis by (simp add: prod_eq_iff)
qed

text \<open>
  C3, as the code has it. On a non-empty input \<open>ComputeSummary\<close> returns a summary whose
  median and four bounds are the results of gonum's \<open>Empirical\<close> quantile at the
  probabilities 0.5, 0.025, 0.975, 0.005, 0.995 on the sorted copy. This quantile does not
  interpolate: each of the five values is one of the samples. On the samples 1, 2, ..., 100
  the median is 50 and the 95% interval is [3, 98].
\<close>

theorem ComputeSummary_quantiles:
  assumes "samples < length h" and "h ! samples \<noteq> []" and "length (h ! samples) \<le> 2 ^ 53"
  shows "(\<exists>s. fst (ComputeSummary round64 h samples) = Inr s \<and>
            stat_Quantile round64 (round64 (5 / 10)) (sorted_list (h ! samples)) = Inr (Median s) \<and>
            stat_Quantile round64 (round64 (25 / 1000)) (sorted_list (h ! samples)) = Inr (fst (CI95 s)) \<and>
            stat_Quantile round64 (round64 (975 / 1000)) (sorted_list (h ! samples)) = Inr (snd (CI95 s)) \<and>
            stat_Quantile round64 (round64 (5 / 1000)) (sorted_list (h ! samples)) = Inr (fst (CI99 s)) \<and>
            stat_Quantile round64 (round64 (995 / 1000)) (sorted_list (h ! samples)) = Inr (snd (CI99 s)) \<and>
            {Median s, fst (CI95 s), snd (CI95 s), fst (CI99 s), snd (CI99 s)} \<subseteq> set (h ! samples)) \<and>
         map_sum id (\<lambda>s. (Median s, CI95 s)) (fst (ComputeSummary round64 [one_to_hundred] 0)) =
           Inr (Fin 50, (Fin 3, Fin 98))"
proof -
  obtain s where s: "fst (ComputeSummary round64 h samples) = Inr s"
    using ComputeSummary_returns [OF assms] by blast
  note q = ComputeSummary_fields [OF assms(1) s]
  have m: "\<And>p v. stat_Quantile round64 p (sorted_list (h ! samples)) = Inr v \<Longrightarrow> v \<in> set (h ! samples)"
    using stat_Quantile_mem [of round64 _ "sorted_list (h ! samples)"] by (simp add: set_sorted_list)
  have "Median s \<in> set (h ! samples)" "fst (CI95 s) \<in> set (h ! samples)"
    "snd (CI95 s) \<in> set (h ! samples)" "fst (CI99 s) \<in> set (h ! samples)"
    "snd (CI99 s) \<in> set (h ! samples)"
    by (rule m, rule q(5), rule m, rule q(6), rule m, rule q(7), rule m, rule q(8),
        rule m, rule q(9))
  with q(5-9) s have "fst (ComputeSummary round64 h samples) = Inr s \<and>
            stat_Quantile round64 (round64 (5 / 10)) (sorted_list (h ! samples)) = Inr (Median s) \<and>
            stat_Quantile round64 (round64 (25 / 1000)) (sorted_list (h ! samples)) = Inr (fst (CI95 s)) \<and>
            stat_Quantile round64 (round64 (975 / 1000)) (sorted_list (h ! samples)) = Inr (snd (CI95 s)) \<and>
            stat_Quantile round64 (round64 (5 / 1000)) (sorted_list (h ! samples)) = Inr (fst (CI99 s)) \<and>
            stat_Quantile round64 (round64 (995 / 1000)) (sorted_list (h ! samples)) = Inr (snd (CI99 s)) \<and>
            {Median s, fst (CI95 s), snd (CI95 s), fst (CI99 s), snd (CI99 s)} \<subseteq> set (h ! samples)"
    by simp
  then show ?thesis by (auto simp add: one_to_hundred_result)
qed

text \<open>
  The five quantiles of the samples 1, 2, ..., 100 are the samples 50, 3, 98, 1 and 100.
\<close>

theorem ComputeSummary_quantiles_witness:
  "stat_Quantile round64 (round64 (5 / 10)) (sorted_list one_to_hundred) = Inr (Fin 50) \<and>
   stat_Quantile round64 (round64 (25 / 1000)) (sorted_list one_to_hundred) = Inr (Fin 3) \<and>
   stat_Quantile round64 (round64 (975 / 1000)) (sorted_list one_to_hundred) = Inr (Fin 98) \<and>
   stat_Quantile round64 (round64 (5 / 1000)) (sorted_list one_to_hundred) = Inr (Fin 1) \<and>
   stat_Quantile round64 (round64 (995 / 1000)) (sorted_list one_to_hundred) = Inr (Fin 100) \<and>
   {Fin 50, Fin 3, Fin 98, Fin 1, Fin 100} \<subseteq> set one_to_hundred"
proof -
  have "one_to_hundred \<noteq> []" using one_to_hundred_props(1) by auto
  then show ?thesis
    using ComputeSummary_quantiles [of 0 "[one_to_hundred]"]
    by (simp add: one_to_hundred_result one_to_hundred_props)
qed

text \<open>
  The median and the 95% interval of 1, 2, ..., 100 are 50 and [3, 98], not 50.5 and
  [3.475, 97.525].
\<close>

theorem ComputeSummary_one_to_hundred_counterexample:
  "map_sum id (\<lambda>s. (Median s, CI95 s)) (fst (ComputeSummary round64 [one_to_hundred] 0)) =
     Inr (Fin 50, (Fin 3, Fin 98))"
  by (simp add: one_to_hundred_result)

text \<open>
  C7, as the code has it. On a single sample \<open>v\<close> the median and the four bounds are \<open>v\<close>,
  and the variance is NaN: \<open>stat.Variance\<close> divides the sum of squares 0 by \<open>n - 1 = 0\<close>.
\<close>

theorem ComputeSummary_single:
  assumes "samples < length h" and "h ! samples = [v]" and "representable round64 v"
  shows "\<exists>s. fst (ComputeSummary round64 h samples) = Inr s \<and> Median s = v \<and>
             CI95 s = (v, v) \<and> CI99 s = (v, v) \<and> Variance s = NaN"
  using assms
  by (simp add: ComputeSummary_eq pbind_def stat_Variance_single
      round64_p50 round64_p025 round64_p975 round64_p005 round64_p995
      stat_Quantile_single round64_p025_times_1 round64_p975_times_1
      round64_p005_times_1 round64_p995_times_1)

theorem ComputeSummary_single_witness:
  "map_sum id (\<lambda>s. (Median s, CI95 s, CI99 s, Variance s)) (fst (ComputeSummary round64 [[Fin 5]] 0)) =
     Inr (Fin 5, (Fin 5, Fin 5), (Fin 5, Fin 5), NaN)"
proof -
  have "representable round64 (Fin 5)" by (simp add: representable_def round64_numeral)
  with ComputeSummary_single [of 0 "[[Fin 5]]" "Fin 5"] show ?thesis by auto
qed

text \<open>
  The variance of the single sample 5 is NaN, not 0.
\<close>

theorem ComputeSummary_single_variance_counterexample:
  "map_sum id Variance (fst (ComputeSummary round64 [[Fin 5]] 0)) = Inr NaN"
proof -
  have "representable round64 (Fin 5)" by (simp add: representable_def round64_numeral)
  then show ?thesis
    by (simp add: ComputeSummary_eq pbind_def stat_Variance_single
      round64_p50 round64_p025 round64_p975 round64_p005 round64_p995
      stat_Quantile_single round64_p025_times_1 round64_p975_times_1
      round64_p005_times_1 round64_p995_times_1)
qed

lemma NormalConjugate_Update_empty_Mu:
  assumes "r 0 = Fin 0"
  shows "Mu (theNormal (NormalConjugate_Update r nc [])) = NaN"
proof -
  have x: "fdiv r (Fin 0) (of_len r 0) = NaN" using assms by (simp add: of_len_def)
  have m: "fmul r a NaN = NaN" for a by (cases a) simp_all
  have a: "fadd r a NaN = NaN" for a by (cases a) simp_all
  show ?thesis
    by (simp add: NormalConjugate_Update_def Let_def NewNormal_def x m a)
qed

text \<open>
  C6, as the code has it. On empty data \<open>NormalConjugate.Update\<close> rejects nothing and
  returns a posterior whose mean is NaN; \<open>ComputeSummary\<close> returns no summary, by the
  panic of \<open>stat.Quantile\<close> on a slice of length zero.
\<close>

theorem empty_data_not_rejected:
  assumes "r 0 = Fin 0" and "r (5 / 10) = Fin (1 / 2)"
    and "samples < length h" and "h ! samples = []"
  shows "Mu (theNormal (NormalConjugate_Update r nc [])) = NaN \<and>
         ComputeSummary r h samples = (Inl ZeroLengthSlice, h @ [[]])"
proof -
  have "stat_Quantile r (Fin (1 / 2)) [] = Inl ZeroLengthSlice"
    by (simp add: stat_Quantile_def fge_def)
  then have "ComputeSummary r h samples = (Inl ZeroLengthSlice, h @ [[]])"
    using assms(2,3,4) by (simp add: ComputeSummary_eq pbind_def)
  moreover have "Mu (theNormal (NormalConjugate_Update r nc [])) = NaN"
    using assms(1) by (rule NormalConjugate_Update_empty_Mu)
  ultimately show ?thesis by simp
qed

theorem empty_data_not_rejected_witness:
  "Mu (theNormal (NormalConjugate_Update round64 (NewNormalConjugate (Fin 10) (Fin 2) (Fin 4)) [])) = NaN \<and>
   ComputeSummary round64 [[]] 0 = (Inl ZeroLengthSlice, [[], []])"
  using empty_data_not_rejected [of round64 0 "[[]]" "NewNormalConjugate (Fin 10) (Fin 2) (Fin 4)"]
  by (simp add: round64_p50)

text \<open>
  On the prior \<open>NormalConjugate(0, 1, 1)\<close> the update with no data is the posterior with
  mean NaN and standard deviation 1.
\<close>

theorem NormalConjugate_Update_empty_counterexample:
  "NormalConjugate_Update round64 (NewNormalConjugate (Fin 0) (Fin 1) (Fin 1)) [] =
     NormalPosterior (NewNormal NaN (Fin 1))"
  by (simp add: NormalConjugate_Update_def NewNormalConjugate_def NewNormal_def of_len_def Let_def)

end
